theory Spec2Isabelle
  imports Complex_Main "HOL-Library.List_Lexorder" "HOL-Library.Char_ord" "HOL-Library.Multiset"
begin

section \<open>Tensors, errors and the library primitives the models call\<close>

text \<open>
  The repository is tensor code on top of torch and torch_geometric. A vector is a list, a
  matrix a list of rows, a 3-D tensor a list of matrices. In the encoder, the classifier
  head, the heterogeneous decoder and the loss the entries are real numbers: rounding,
  overflow and infinities of floating point are not modelled there, and the NaN that
  \<^verbatim>\<open>torch.mean\<close> returns on an empty tensor is the value \<open>None\<close> of
  \<open>real option\<close>. The inner-product decoder and the DistMult decoder, whose results on
  large input are decided by overflow, are modelled on floating-point values with
  infinities and NaN (section ``Floating-point values'').

  Every Python exception is a value of \<open>error\<close>; a function that can raise
  returns \<open>error + 'a\<close>.
\<close>

type_synonym vec = "real list"
type_synonym mat = "real list list"
type_synonym tensor3 = "real list list list"

datatype error =
    NotImplementedError string "string list"
  | TypeError
  | AttributeError
  | IndexError
  | ValueError
  | RuntimeError
  | ZeroDivisionError
  | RecursionError

text \<open>Shapes: an \<open>n \<times> d\<close> matrix and an \<open>a \<times> b \<times> c\<close> tensor.\<close>

definition is_mat :: "nat \<Rightarrow> nat \<Rightarrow> 'a list list \<Rightarrow> bool" where
  "is_mat n d m = (length m = n \<and> list_all (\<lambda>r. length r = d) m)"

definition is_tensor3 :: "nat \<Rightarrow> nat \<Rightarrow> nat \<Rightarrow> 'a list list list \<Rightarrow> bool" where
  "is_tensor3 a b c t = (length t = a \<and> list_all (is_mat b c) t)"

definition ebind :: "error + 'a \<Rightarrow> ('a \<Rightarrow> error + 'b) \<Rightarrow> error + 'b" where
  "ebind m f = (case m of Inl e \<Rightarrow> Inl e | Inr v \<Rightarrow> f v)"

text \<open>Evaluate a list of results left to right; the first exception wins.\<close>

fun collect :: "(error + 'a) list \<Rightarrow> error + 'a list" where
  "collect [] = Inr []"
| "collect (r # rs) =
     (case r of
        Inl e \<Rightarrow> Inl e
      | Inr v \<Rightarrow> (case collect rs of Inl e \<Rightarrow> Inl e | Inr vs \<Rightarrow> Inr (v # vs)))"

text \<open>
  \<^verbatim>\<open>t[i]\<close> along the first dimension: an index in \<open>[-n, n)\<close> is accepted, a
  negative one counts from the end, anything else raises IndexError.
  \<^verbatim>\<open>t[idx]\<close> with an index tensor gathers the rows in the order of \<open>idx\<close>.
\<close>

definition index_row :: "'a list \<Rightarrow> int \<Rightarrow> error + 'a" where
  "index_row t i =
     (if 0 \<le> i \<and> i < int (length t) then Inr (t ! nat i)
      else if - int (length t) \<le> i \<and> i < 0 then Inr (t ! nat (i + int (length t)))
      else Inl IndexError)"

definition index_select :: "'a list \<Rightarrow> int list \<Rightarrow> error + 'a list" where
  "index_select t idx = collect (map (index_row t) idx)"

text \<open>
  Elementwise operations broadcast: along a dimension the two sizes are equal, or one of
  them is 1 and that operand is repeated; any other pair of sizes raises RuntimeError.
\<close>

definition broadcast2 ::
  "('a \<Rightarrow> 'b \<Rightarrow> error + 'c) \<Rightarrow> 'a list \<Rightarrow> 'b list \<Rightarrow> error + 'c list" where
  "broadcast2 f xs ys =
     (if length xs = length ys then collect (map2 f xs ys)
      else if length xs = 1 then collect (map (f (hd xs)) ys)
      else if length ys = 1 then collect (map (\<lambda>x. f x (hd ys)) xs)
      else Inl RuntimeError)"

definition mul_vec :: "vec \<Rightarrow> vec \<Rightarrow> error + vec" where
  "mul_vec = broadcast2 (\<lambda>x y. Inr (x * y))"

definition mul_mat :: "mat \<Rightarrow> mat \<Rightarrow> error + mat" where
  "mul_mat = broadcast2 mul_vec"

definition dot :: "vec \<Rightarrow> vec \<Rightarrow> real" where
  "dot u v = sum_list (map2 (*) u v)"

text \<open>\<^verbatim>\<open>torch.mean\<close> of all elements; NaN (\<open>None\<close>) on an empty tensor.\<close>

definition torch_mean :: "real list \<Rightarrow> real option" where
  "torch_mean xs = (if xs = [] then None else Some (sum_list xs / real (length xs)))"

definition relu :: "real \<Rightarrow> real" where
  "relu x = max 0 x"

definition sigmoid :: "real \<Rightarrow> real" where
  "sigmoid x = 1 / (1 + exp (- x))"

text \<open>
  \<^verbatim>\<open>F.dropout(z, p, training)\<close>. The probability is checked first (ValueError
  outside \<open>[0, 1]\<close>). In training mode every element is kept with probability
  \<open>1 - p\<close> and scaled by \<open>1 / (1 - p)\<close>, or set to zero; outside training mode the
  input is returned unchanged. The random draw is the argument \<open>keep\<close>: \<open>keep i j\<close>
  says whether element \<open>(i, j)\<close> survives. With \<open>p = 0\<close> every element survives and
  with \<open>p = 1\<close> none does, whatever the draw.
\<close>

definition dropout_elem :: "real \<Rightarrow> bool \<Rightarrow> bool \<Rightarrow> real \<Rightarrow> real" where
  "dropout_elem p training kept x =
     (if training then (if p = 0 \<or> (kept \<and> p < 1) then x / (1 - p) else 0) else x)"

definition F_dropout3 ::
  "real \<Rightarrow> bool \<Rightarrow> (nat \<Rightarrow> nat \<Rightarrow> nat \<Rightarrow> bool) \<Rightarrow> tensor3 \<Rightarrow> error + tensor3" where
  "F_dropout3 p training keep z =
     (if p < 0 \<or> 1 < p then Inl ValueError
      else Inr (map (\<lambda>(i, m). map (\<lambda>(j, row). map (\<lambda>(k, x). dropout_elem p training (keep i j k) x)
                                                     (enumerate 0 row))
                                    (enumerate 0 m)) (enumerate 0 z)))"

definition F_dropout :: "real \<Rightarrow> bool \<Rightarrow> (nat \<Rightarrow> nat \<Rightarrow> bool) \<Rightarrow> mat \<Rightarrow> error + mat" where
  "F_dropout p training keep z =
     (if p < 0 \<or> 1 < p then Inl ValueError
      else Inr (map (\<lambda>(i, row). map (\<lambda>(j, x). dropout_elem p training (keep i j) x)
                                    (enumerate 0 row)) (enumerate 0 z)))"

text \<open>
  A fully connected layer with bias, \<open>y = W x + b\<close> on the last dimension. \<open>Linear W b\<close>
  has its weight (one row per output) from construction. \<open>LazyLinear init b\<close> is
  \<^verbatim>\<open>Linear(-1, out)\<close>: the weight is created at the first call, with as many columns
  as the input has features; \<open>init n\<close> stands for the values it is created with.
  An input whose feature count differs from the weight's column count raises RuntimeError.
\<close>

datatype linear = Linear mat vec | LazyLinear "nat \<Rightarrow> mat" vec

fun weight :: "linear \<Rightarrow> nat \<Rightarrow> mat" where
  "weight (Linear W b) n = W"
| "weight (LazyLinear init b) n = init n"

fun bias :: "linear \<Rightarrow> vec" where
  "bias (Linear W b) = b"
| "bias (LazyLinear init b) = b"

definition linear_vec :: "linear \<Rightarrow> vec \<Rightarrow> error + vec" where
  "linear_vec l x =
     (if list_all (\<lambda>row. length row = length x) (weight l (length x))
         \<and> length (bias l) = length (weight l (length x))
      then Inr (map2 (\<lambda>row b. dot row x + b) (weight l (length x)) (bias l))
      else Inl RuntimeError)"

definition linear_mat :: "linear \<Rightarrow> mat \<Rightarrow> error + mat" where
  "linear_mat l z = collect (map (linear_vec l) z)"

definition linear_tensor3 :: "linear \<Rightarrow> tensor3 \<Rightarrow> error + tensor3" where
  "linear_tensor3 l z = collect (map (linear_mat l) z)"

text \<open>
  A 2-D tensor together with its size, for a parameter created by
  \<^verbatim>\<open>torch.empty(rows, cols)\<close>: the size is known even when a dimension is zero and the
  list of rows cannot show it.
\<close>

record tensor2 =
  t_rows :: nat
  t_cols :: nat
  t_data :: mat

text \<open>
  \<^verbatim>\<open>torch.matmul(a, b)\<close> of a matrix \<open>a\<close> with a 2-D parameter \<open>b\<close>: every row
  of \<open>a\<close> must have as many entries as \<open>b\<close> has rows (RuntimeError); the result has one
  row per row of \<open>a\<close> and one column per column of \<open>b\<close>.
\<close>

definition matmul :: "mat \<Rightarrow> tensor2 \<Rightarrow> error + mat" where
  "matmul a b =
     (if list_all (\<lambda>row. length row = t_rows b) a
      then Inr (map (\<lambda>row. map (\<lambda>j. (\<Sum>k\<leftarrow>[0..<t_rows b]. row ! k * (t_data b ! k ! j)))
                             [0..<t_cols b]) a)
      else Inl RuntimeError)"

text \<open>
  \<^verbatim>\<open>t.unsqueeze(2).repeat(1, 1, k)\<close> on a matrix: a new last dimension of size
  one, then the tensor tiled \<open>k\<close> times along it.
\<close>

definition unsqueeze2 :: "'a list list \<Rightarrow> 'a list list list" where
  "unsqueeze2 t = map (map (\<lambda>x. [x])) t"

definition repeat_last :: "nat \<Rightarrow> 'a list list list \<Rightarrow> 'a list list list" where
  "repeat_last k t = map (map (\<lambda>v. concat (replicate k v))) t"

section \<open>Floating-point values\<close>

text \<open>
  Two of the models below, the inner-product decoder and the DistMult decoder, are stated
  on floating-point tensors, because what they return on large input is decided by
  overflow. A value of \<open>fl\<close> is a finite number, one of the two infinities, or NaN. An
  operation on finite numbers whose exact result reaches the float32 overflow bound
  \<open>2\<^sup>1\<^sup>2\<^sup>8 - 2\<^sup>1\<^sup>0\<^sup>3\<close> gives an infinity; infinities and NaN combine as IEEE 754 says
  (\<open>\<infinity> - \<infinity>\<close> and \<open>0 \<times> \<infinity>\<close> are NaN, NaN is contagious). A finite result below the
  bound is kept exact: rounding to the nearest float and signed zeros are not modelled.
\<close>

datatype fl = Fin real | PInf | NInf | NaN

type_synonym fvec = "fl list"
type_synonym fmat = "fl list list"
type_synonym ftensor3 = "fl list list list"

definition float32_limit :: real where
  "float32_limit = 2 ^ 128 - 2 ^ 103"

definition overflow :: "real \<Rightarrow> fl" where
  "overflow r =
     (if float32_limit \<le> r then PInf else if r \<le> - float32_limit then NInf else Fin r)"

fun fadd :: "fl \<Rightarrow> fl \<Rightarrow> fl" where
  "fadd NaN y = NaN"
| "fadd x NaN = NaN"
| "fadd (Fin a) (Fin b) = overflow (a + b)"
| "fadd (Fin a) y = y"
| "fadd x (Fin b) = x"
| "fadd PInf PInf = PInf"
| "fadd NInf NInf = NInf"
| "fadd PInf NInf = NaN"
| "fadd NInf PInf = NaN"

fun fmul :: "fl \<Rightarrow> fl \<Rightarrow> fl" where
  "fmul NaN y = NaN"
| "fmul x NaN = NaN"
| "fmul (Fin a) (Fin b) = overflow (a * b)"
| "fmul (Fin a) PInf = (if a = 0 then NaN else if 0 < a then PInf else NInf)"
| "fmul (Fin a) NInf = (if a = 0 then NaN else if 0 < a then NInf else PInf)"
| "fmul PInf (Fin b) = (if b = 0 then NaN else if 0 < b then PInf else NInf)"
| "fmul NInf (Fin b) = (if b = 0 then NaN else if 0 < b then NInf else PInf)"
| "fmul PInf PInf = PInf"
| "fmul NInf NInf = PInf"
| "fmul PInf NInf = NInf"
| "fmul NInf PInf = NInf"

text \<open>
  A sum of a list of floats, accumulated from the left; the inner product of two vectors.
  (The order in which the library adds is its own; with at most two summands every order
  gives the same result.)
\<close>

definition fsum :: "fl list \<Rightarrow> fl" where
  "fsum xs = foldl fadd (Fin 0) xs"

definition fdot :: "fvec \<Rightarrow> fvec \<Rightarrow> fl" where
  "fdot u v = fsum (map2 fmul u v)"

text \<open>\<^verbatim>\<open>relu\<close> and \<^verbatim>\<open>sigmoid\<close> on a float: NaN stays NaN.\<close>

fun frelu :: "fl \<Rightarrow> fl" where
  "frelu (Fin r) = Fin (max 0 r)"
| "frelu PInf = PInf"
| "frelu NInf = Fin 0"
| "frelu NaN = NaN"

fun fsigmoid :: "fl \<Rightarrow> fl" where
  "fsigmoid (Fin r) = Fin (sigmoid r)"
| "fsigmoid PInf = Fin 1"
| "fsigmoid NInf = Fin 0"
| "fsigmoid NaN = NaN"

text \<open>A float that is a number of the closed interval \<open>[0, 1]\<close>.\<close>

fun in_unit_interval :: "fl \<Rightarrow> bool" where
  "in_unit_interval (Fin r) = (0 \<le> r \<and> r \<le> 1)"
| "in_unit_interval x = False"

text \<open>
  Dropout on floats is a multiplication: by \<open>1 / (1 - p)\<close> for an element that survives
  and by zero for one that is dropped, so that a dropped infinity or NaN becomes NaN.
\<close>

definition dropout_elem_f :: "real \<Rightarrow> bool \<Rightarrow> bool \<Rightarrow> fl \<Rightarrow> fl" where
  "dropout_elem_f p training kept x =
     (if training
      then fmul x (Fin (if p = 0 \<or> (kept \<and> p < 1) then 1 / (1 - p) else 0))
      else x)"

definition F_dropout_f :: "real \<Rightarrow> bool \<Rightarrow> (nat \<Rightarrow> nat \<Rightarrow> bool) \<Rightarrow> fmat \<Rightarrow> error + fmat" where
  "F_dropout_f p training keep z =
     (if p < 0 \<or> 1 < p then Inl ValueError
      else Inr (map (\<lambda>(i, row). map (\<lambda>(j, x). dropout_elem_f p training (keep i j) x)
                                    (enumerate 0 row)) (enumerate 0 z)))"

definition F_dropout3_f ::
  "real \<Rightarrow> bool \<Rightarrow> (nat \<Rightarrow> nat \<Rightarrow> nat \<Rightarrow> bool) \<Rightarrow> ftensor3 \<Rightarrow> error + ftensor3" where
  "F_dropout3_f p training keep z =
     (if p < 0 \<or> 1 < p then Inl ValueError
      else Inr (map (\<lambda>(i, m). map (\<lambda>(j, row). map (\<lambda>(k, x). dropout_elem_f p training (keep i j k) x)
                                                     (enumerate 0 row))
                                    (enumerate 0 m)) (enumerate 0 z)))"

text \<open>The fully connected layer on floats.\<close>

datatype linear_f = Linear_f fmat fvec | LazyLinear_f "nat \<Rightarrow> fmat" fvec

fun weight_f :: "linear_f \<Rightarrow> nat \<Rightarrow> fmat" where
  "weight_f (Linear_f W b) n = W"
| "weight_f (LazyLinear_f init b) n = init n"

fun bias_f :: "linear_f \<Rightarrow> fvec" where
  "bias_f (Linear_f W b) = b"
| "bias_f (LazyLinear_f init b) = b"

definition linear_vec_f :: "linear_f \<Rightarrow> fvec \<Rightarrow> error + fvec" where
  "linear_vec_f l x =
     (if list_all (\<lambda>row. length row = length x) (weight_f l (length x))
         \<and> length (bias_f l) = length (weight_f l (length x))
      then Inr (map2 (\<lambda>row b. fadd (fdot row x) b) (weight_f l (length x)) (bias_f l))
      else Inl RuntimeError)"

definition linear_mat_f :: "linear_f \<Rightarrow> fmat \<Rightarrow> error + fmat" where
  "linear_mat_f l z = collect (map (linear_vec_f l) z)"

definition linear_tensor3_f :: "linear_f \<Rightarrow> ftensor3 \<Rightarrow> error + ftensor3" where
  "linear_tensor3_f l z = collect (map (linear_mat_f l) z)"

text \<open>\<^verbatim>\<open>torch.mm(z, z.t())\<close>: all pairwise inner products of the rows of \<open>z\<close>.\<close>

definition mm_transpose_f :: "fmat \<Rightarrow> fmat" where
  "mm_transpose_f z = map (\<lambda>u. map (\<lambda>v. fdot u v) z) z"

definition mul_mat_f :: "fmat \<Rightarrow> fmat \<Rightarrow> error + fmat" where
  "mul_mat_f = broadcast2 (broadcast2 (\<lambda>x y. Inr (fmul x y)))"

text \<open>A tensor of floats whose entries are the given integers.\<close>

definition float_mat :: "int list list \<Rightarrow> fmat" where
  "float_mat m = map (map (\<lambda>i. Fin (real_of_int i))) m"

text \<open>
  A float that holds an integer of magnitude at most 256, and a tensor of such floats: a
  product of three of them has magnitude at most \<open>2\<^sup>2\<^sup>4\<close>, and float32 represents every
  integer up to there.
\<close>

definition small_int_float :: "fl \<Rightarrow> bool" where
  "small_int_float x = (\<exists>i::int. x = Fin (real_of_int i) \<and> \<bar>i\<bar> \<le> 256)"

definition all_small :: "fmat \<Rightarrow> bool" where
  "all_small m = list_all (list_all small_int_float) m"

section \<open>Configuration and graph data\<close>

text \<open>
  \<^verbatim>\<open>args\<close> is the configuration object (model name, hidden dimension, dropout rate,
  number of classes); \<^verbatim>\<open>data\<close> is the graph the model is built for. An attribute
  that may be \<^verbatim>\<open>None\<close> is an option.
\<close>

record config =
  args_model :: string
  args_hidden_dim :: nat
  args_dropout :: real
  args_num_classes :: nat

record graph_data =
  data_x :: "mat option"
  data_num_nodes :: nat

text \<open>
  A batch: the feature matrix, the node identifiers, and the edges to score. An edge index
  is a \<open>2 \<times> E\<close> tensor of node positions; it is kept as the list of its \<open>E\<close> columns, the
  pairs (source, destination), so that row 0 is \<open>map fst\<close> and row 1 is \<open>map snd\<close>.
  \<^verbatim>\<open>neg_edge_index\<close> is an attribute a batch may lack (\<open>None\<close>).
\<close>

record graph_batch =
  batch_x :: "mat option"
  batch_node_ids :: "int list"
  pos_edge_index :: "(int \<times> int) list"
  neg_edge_index :: "(int \<times> int) list option"

section \<open>MLPEncoder\<close>

text \<open>
  The attributes of an encoder object. \<^verbatim>\<open>featureless\<close> and
  \<^verbatim>\<open>node_embeddings\<close> are assigned only in one branch of the constructor, so
  each is an option: \<open>None\<close> is an attribute that was never assigned, and reading it
  raises AttributeError. \<^verbatim>\<open>training\<close> is the mode flag of the module, true
  after construction.

  The values that \<^verbatim>\<open>torch.empty\<close> and \<^verbatim>\<open>reset_parameters\<close> leave in the
  parameters are unknown to the program; the constructor takes them as \<open>mlp_init\<close>.
\<close>

record mlp_init =
  init_node_embeddings :: mat
  init_linear1 :: "nat \<Rightarrow> mat"
  init_bias1 :: vec
  init_linear2 :: mat
  init_bias2 :: vec
  init_linear3 :: mat
  init_bias3 :: vec

record MLPEncoder =
  featureless :: "bool option"
  node_embeddings :: "mat option"
  enc_dropout :: real
  linear1 :: linear
  linear2 :: linear
  linear3 :: linear
  enc_training :: bool

definition MLPEncoder_init :: "mlp_init \<Rightarrow> config \<Rightarrow> graph_data \<Rightarrow> MLPEncoder" where
  "MLPEncoder_init init args data =
     \<lparr> featureless = (if data_x data = None then Some True else None),
       node_embeddings = (if data_x data = None then Some (init_node_embeddings init) else None),
       enc_dropout = args_dropout args,
       linear1 = LazyLinear (init_linear1 init) (init_bias1 init),
       linear2 = Linear (init_linear2 init) (init_bias2 init),
       linear3 = Linear (init_linear3 init) (init_bias3 init),
       enc_training = True \<rparr>"

text \<open>Reading an attribute of the module: AttributeError when it was never assigned.\<close>

definition getattr_opt :: "'a option \<Rightarrow> error + 'a" where
  "getattr_opt a = (case a of None \<Rightarrow> Inl AttributeError | Some v \<Rightarrow> Inr v)"

text \<open>
  \<^verbatim>\<open>forward\<close>. The first statement reads \<^verbatim>\<open>self.featureless\<close>. A layer
  applied to \<^verbatim>\<open>None\<close> (a batch without \<^verbatim>\<open>x\<close>) fails inside the library; the
  failure is recorded as TypeError. \<open>keep1\<close> and \<open>keep2\<close> are the draws of the two
  dropout calls.
\<close>

definition relu_mat :: "mat \<Rightarrow> mat" where
  "relu_mat z = map (map relu) z"

definition MLPEncoder_forward ::
  "MLPEncoder \<Rightarrow> (nat \<Rightarrow> nat \<Rightarrow> bool) \<Rightarrow> (nat \<Rightarrow> nat \<Rightarrow> bool) \<Rightarrow> graph_batch \<Rightarrow> error + mat" where
  "MLPEncoder_forward self keep1 keep2 batch =
     ebind (getattr_opt (featureless self)) (\<lambda>fl.
     ebind (if fl
            then ebind (getattr_opt (node_embeddings self)) (\<lambda>emb.
                 ebind (index_select emb (batch_node_ids batch)) (linear_mat (linear1 self)))
            else (case batch_x batch of
                    None \<Rightarrow> Inl TypeError
                  | Some x \<Rightarrow> linear_mat (linear1 self) x)) (\<lambda>h1.
     ebind (F_dropout (enc_dropout self) (enc_training self) keep1 (relu_mat h1)) (\<lambda>z1.
     ebind (linear_mat (linear2 self) z1) (\<lambda>h2.
     ebind (F_dropout (enc_dropout self) (enc_training self) keep2 (relu_mat h2)) (\<lambda>z2.
     ebind (linear_mat (linear3 self) z2) (\<lambda>h3.
     Inr (relu_mat h3)))))))"

section \<open>LinearClassifier and InnerProductDecoder\<close>

text \<open>
  The classifier head: three fully connected layers, the first created lazily. The values
  the layers are initialised with are the argument \<open>clf_init\<close> of the constructor.
  \<^verbatim>\<open>lc_training\<close> is the mode flag of the module.
\<close>

record clf_init =
  clf_weight1 :: "nat \<Rightarrow> mat"
  clf_bias1 :: vec
  clf_weight2 :: mat
  clf_bias2 :: vec
  clf_weight3 :: mat
  clf_bias3 :: vec

record LinearClassifier =
  lc_hidden_dim :: nat
  lc_dropout :: real
  lc_num_classes :: nat
  lc_layers :: "linear list"
  lc_training :: bool

definition LinearClassifier_init :: "clf_init \<Rightarrow> config \<Rightarrow> LinearClassifier" where
  "LinearClassifier_init init args =
     \<lparr> lc_hidden_dim = args_hidden_dim args,
       lc_dropout = args_dropout args,
       lc_num_classes = args_num_classes args,
       lc_layers = [LazyLinear (clf_weight1 init) (clf_bias1 init),
                    Linear (clf_weight2 init) (clf_bias2 init),
                    Linear (clf_weight3 init) (clf_bias3 init)],
       lc_training = True \<rparr>"

definition relu3 :: "tensor3 \<Rightarrow> tensor3" where
  "relu3 z = map (map (map relu)) z"

text \<open>
  The loop of \<^verbatim>\<open>forward\<close> over \<^verbatim>\<open>self.layers[:-1]\<close>. The call is
  \<^verbatim>\<open>F.dropout(z, self.dropout)\<close>: the third parameter of \<^verbatim>\<open>F.dropout\<close>,
  \<^verbatim>\<open>training\<close>, is left at its default, which is true. \<open>keep n\<close> is the draw of the
  dropout call in iteration \<open>n\<close>.
\<close>

fun classifier_loop ::
  "linear list \<Rightarrow> real \<Rightarrow> nat \<Rightarrow> (nat \<Rightarrow> nat \<Rightarrow> nat \<Rightarrow> nat \<Rightarrow> bool) \<Rightarrow> tensor3 \<Rightarrow> error + tensor3" where
  "classifier_loop [] p n keep z = Inr z"
| "classifier_loop (layer # layers) p n keep z =
     ebind (linear_tensor3 layer z) (\<lambda>h.
     ebind (F_dropout3 p True (keep n) (relu3 h)) (\<lambda>z'.
     classifier_loop layers p (Suc n) keep z'))"

definition LinearClassifier_forward ::
  "LinearClassifier \<Rightarrow> (nat \<Rightarrow> nat \<Rightarrow> nat \<Rightarrow> nat \<Rightarrow> bool) \<Rightarrow> tensor3 \<Rightarrow> error + tensor3" where
  "LinearClassifier_forward self keep z =
     ebind (classifier_loop (butlast (lc_layers self)) (lc_dropout self) 0 keep z) (\<lambda>z'.
     if lc_layers self = [] then Inl IndexError else linear_tensor3 (last (lc_layers self)) z')"

text \<open>
  The forward pass of the classifier with the dropout calls removed: the composition of
  its layers and activations.
\<close>

fun layers_only :: "linear list \<Rightarrow> tensor3 \<Rightarrow> error + tensor3" where
  "layers_only [] z = Inr z"
| "layers_only (layer # layers) z = ebind (linear_tensor3 layer z) (\<lambda>h. layers_only layers (relu3 h))"

definition LinearClassifier_without_dropout :: "LinearClassifier \<Rightarrow> tensor3 \<Rightarrow> error + tensor3" where
  "LinearClassifier_without_dropout self z =
     ebind (layers_only (butlast (lc_layers self)) z) (\<lambda>z'.
     if lc_layers self = [] then Inl IndexError else linear_tensor3 (last (lc_layers self)) z')"

subsection \<open>The decoder, on floating-point tensors\<close>

text \<open>
  The inner-product decoder runs the classifier on the sigmoid of \<open>z z\<^sup>T\<close>, whose entries
  overflow for large embeddings. It is modelled on floats; the classifier it contains is
  the one above with the arithmetic of \<open>fl\<close>: the same loop, the same dropout call with
  its default \<^verbatim>\<open>training\<close>.
\<close>

record clf_init_f =
  clf_weight1_f :: "nat \<Rightarrow> fmat"
  clf_bias1_f :: fvec
  clf_weight2_f :: fmat
  clf_bias2_f :: fvec
  clf_weight3_f :: fmat
  clf_bias3_f :: fvec

record LinearClassifier_f =
  lcf_hidden_dim :: nat
  lcf_dropout :: real
  lcf_num_classes :: nat
  lcf_layers :: "linear_f list"
  lcf_training :: bool

definition LinearClassifier_init_f :: "clf_init_f \<Rightarrow> config \<Rightarrow> LinearClassifier_f" where
  "LinearClassifier_init_f init args =
     \<lparr> lcf_hidden_dim = args_hidden_dim args,
       lcf_dropout = args_dropout args,
       lcf_num_classes = args_num_classes args,
       lcf_layers = [LazyLinear_f (clf_weight1_f init) (clf_bias1_f init),
                     Linear_f (clf_weight2_f init) (clf_bias2_f init),
                     Linear_f (clf_weight3_f init) (clf_bias3_f init)],
       lcf_training = True \<rparr>"

definition relu3_f :: "ftensor3 \<Rightarrow> ftensor3" where
  "relu3_f z = map (map (map frelu)) z"

fun classifier_loop_f ::
  "linear_f list \<Rightarrow> real \<Rightarrow> nat \<Rightarrow> (nat \<Rightarrow> nat \<Rightarrow> nat \<Rightarrow> nat \<Rightarrow> bool) \<Rightarrow> ftensor3
     \<Rightarrow> error + ftensor3" where
  "classifier_loop_f [] p n keep z = Inr z"
| "classifier_loop_f (layer # layers) p n keep z =
     ebind (linear_tensor3_f layer z) (\<lambda>h.
     ebind (F_dropout3_f p True (keep n) (relu3_f h)) (\<lambda>z'.
     classifier_loop_f layers p (Suc n) keep z'))"

definition LinearClassifier_forward_f ::
  "LinearClassifier_f \<Rightarrow> (nat \<Rightarrow> nat \<Rightarrow> nat \<Rightarrow> nat \<Rightarrow> bool) \<Rightarrow> ftensor3 \<Rightarrow> error + ftensor3" where
  "LinearClassifier_forward_f self keep z =
     ebind (classifier_loop_f (butlast (lcf_layers self)) (lcf_dropout self) 0 keep z) (\<lambda>z'.
     if lcf_layers self = [] then Inl IndexError
     else linear_tensor3_f (last (lcf_layers self)) z')"

text \<open>
  Parameters of the right sizes: a layer that takes \<open>n_in\<close> features to \<open>n_out\<close>, and
  initial values for a classifier with the given hidden dimension and number of classes
  (its lazy first layer meets inputs with one feature per class).
\<close>

definition layer_ok :: "linear_f \<Rightarrow> nat \<Rightarrow> nat \<Rightarrow> bool" where
  "layer_ok l n_in n_out = (is_mat n_out n_in (weight_f l n_in) \<and> length (bias_f l) = n_out)"

definition clf_init_ok :: "clf_init_f \<Rightarrow> nat \<Rightarrow> nat \<Rightarrow> bool" where
  "clf_init_ok init hidden classes =
     (layer_ok (LazyLinear_f (clf_weight1_f init) (clf_bias1_f init)) classes hidden
      \<and> layer_ok (Linear_f (clf_weight2_f init) (clf_bias2_f init)) hidden hidden
      \<and> layer_ok (Linear_f (clf_weight3_f init) (clf_bias3_f init)) hidden classes)"

record InnerProductDecoder =
  ipd_dropout :: real
  ipd_num_classes :: nat
  ipd_classifier :: LinearClassifier_f
  ipd_training :: bool

definition InnerProductDecoder_init :: "clf_init_f \<Rightarrow> config \<Rightarrow> InnerProductDecoder" where
  "InnerProductDecoder_init init args =
     \<lparr> ipd_dropout = args_dropout args,
       ipd_num_classes = args_num_classes args,
       ipd_classifier = LinearClassifier_init_f init args,
       ipd_training = True \<rparr>"

text \<open>
  \<^verbatim>\<open>module.train(mode)\<close> (and \<^verbatim>\<open>eval()\<close>, which is \<^verbatim>\<open>train(False)\<close>) sets the
  flag of the module and of its submodules.
\<close>

definition InnerProductDecoder_train :: "bool \<Rightarrow> InnerProductDecoder \<Rightarrow> InnerProductDecoder" where
  "InnerProductDecoder_train mode self =
     self\<lparr> ipd_training := mode,
           ipd_classifier := (ipd_classifier self)\<lparr> lcf_training := mode \<rparr> \<rparr>"

text \<open>
  \<^verbatim>\<open>forward\<close>: dropout on the embeddings (draw \<open>keep0\<close>), the sigmoid of all pairwise
  inner products, that matrix repeated \<^verbatim>\<open>num_classes\<close> times along a new last
  dimension, the classifier (draws \<open>keep\<close>), and the sigmoid of its output.
\<close>

definition InnerProductDecoder_forward ::
  "InnerProductDecoder \<Rightarrow> (nat \<Rightarrow> nat \<Rightarrow> bool) \<Rightarrow> (nat \<Rightarrow> nat \<Rightarrow> nat \<Rightarrow> nat \<Rightarrow> bool) \<Rightarrow> fmat
     \<Rightarrow> error + ftensor3" where
  "InnerProductDecoder_forward self keep0 keep z =
     ebind (F_dropout_f (ipd_dropout self) (ipd_training self) keep0 z) (\<lambda>z'.
     let adj = map (map fsigmoid) (mm_transpose_f z');
         adj_3D = repeat_last (ipd_num_classes self) (unsqueeze2 adj)
     in ebind (LinearClassifier_forward_f (ipd_classifier self) keep adj_3D) (\<lambda>a_hat.
        Inr (map (map (map fsigmoid)) a_hat)))"

section \<open>DistMultDecoder and HetDistMultDecoder\<close>

text \<open>
  \<^verbatim>\<open>DistMultDecoder\<close> holds one embedding row per relation. \<^verbatim>\<open>forward\<close> gathers
  the source rows, the destination rows and the relation rows, multiplies the three
  elementwise, in the order \<open>(z_src * rel) * z_dst\<close>, and sums along dimension 1: one
  score per edge. The products can overflow and their grouping changes with the direction
  of the edge, so the decoder is modelled on floats.
\<close>

record DistMultDecoder =
  rel_emb :: fmat

definition DistMultDecoder_forward ::
  "DistMultDecoder \<Rightarrow> fmat \<Rightarrow> (int \<times> int) list \<Rightarrow> int list \<Rightarrow> error + fvec" where
  "DistMultDecoder_forward self z edge_index edge_type =
     ebind (index_select z (map fst edge_index)) (\<lambda>z_src.
     ebind (index_select z (map snd edge_index)) (\<lambda>z_dst.
     ebind (index_select (rel_emb self) edge_type) (\<lambda>rel.
     ebind (mul_mat_f z_src rel) (\<lambda>t.
     ebind (mul_mat_f t z_dst) (\<lambda>u.
     Inr (map fsum u))))))"

text \<open>
  \<^verbatim>\<open>HetDistMultDecoder\<close>: the parameter is created with \<^verbatim>\<open>hidden_channels\<close> rows and
  \<^verbatim>\<open>num_relations + 1\<close> columns; \<open>vals\<close> are the values the initialiser leaves in it.
\<close>

record HetDistMultDecoder =
  het_rel_emb :: tensor2
  het_num_relations :: nat

definition HetDistMultDecoder_init :: "mat \<Rightarrow> nat \<Rightarrow> nat \<Rightarrow> HetDistMultDecoder" where
  "HetDistMultDecoder_init vals num_relations hidden_channels =
     \<lparr> het_rel_emb = \<lparr> t_rows = hidden_channels, t_cols = num_relations + 1, t_data = vals \<rparr>,
       het_num_relations = num_relations \<rparr>"

definition het_scores :: "HetDistMultDecoder \<Rightarrow> mat \<Rightarrow> (int \<times> int) list \<Rightarrow> error + mat" where
  "het_scores self z edge_index =
     ebind (index_select z (map fst edge_index)) (\<lambda>z_src.
     ebind (index_select z (map snd edge_index)) (\<lambda>z_dst.
     ebind (mul_mat z_src z_dst) (\<lambda>prod.
     matmul prod (het_rel_emb self))))"

definition HetDistMultDecoder_forward ::
  "HetDistMultDecoder \<Rightarrow> mat \<Rightarrow> graph_batch \<Rightarrow> error + mat" where
  "HetDistMultDecoder_forward self z batch =
     ebind (het_scores self z (pos_edge_index batch)) (\<lambda>out.
     case neg_edge_index batch of
       None \<Rightarrow> Inr out
     | Some neg \<Rightarrow> ebind (het_scores self z neg) (\<lambda>neg_out. Inr (out @ neg_out)))"

text \<open>Every endpoint of every edge is a valid position in a tensor with \<open>n\<close> rows.\<close>

definition edges_in_range :: "nat \<Rightarrow> (int \<times> int) list \<Rightarrow> bool" where
  "edges_in_range n edge_index =
     list_all (\<lambda>(s, d). - int n \<le> s \<and> s < int n \<and> - int n \<le> d \<and> d < int n) edge_index"

section \<open>The loss function\<close>

text \<open>
  \<^verbatim>\<open>F.binary_cross_entropy_with_logits(input, target, pos_weight=...)\<close> with the
  default mean reduction. The sizes of input and target must be equal (ValueError). The
  loss of one element is computed by the library as
  \<open>(1 - y) x + (1 + (p - 1) y) log (1 + exp (- x))\<close>, and
  the result is the mean over all elements.
\<close>

definition bce_elem :: "real \<Rightarrow> real \<Rightarrow> real \<Rightarrow> real" where
  "bce_elem pos_weight x y = (1 - y) * x + (1 + (pos_weight - 1) * y) * ln (1 + exp (- x))"

definition flatten3 :: "tensor3 \<Rightarrow> real list" where
  "flatten3 t = concat (concat t)"

definition binary_cross_entropy_with_logits ::
  "tensor3 \<Rightarrow> tensor3 \<Rightarrow> real \<Rightarrow> error + real option" where
  "binary_cross_entropy_with_logits input target pos_weight =
     (if map (map length) input \<noteq> map (map length) target then Inl ValueError
      else Inr (torch_mean (flatten3 (map2 (map2 (map2 (bce_elem pos_weight))) input target))))"

text \<open>Arithmetic on a scalar that may be NaN.\<close>

definition nan_scale :: "real \<Rightarrow> real option \<Rightarrow> real option" where
  "nan_scale c v = map_option (\<lambda>x. c * x) v"

definition nan_add :: "real option \<Rightarrow> real option \<Rightarrow> real option" where
  "nan_add u v = (case u of None \<Rightarrow> None | Some a \<Rightarrow> map_option (\<lambda>b. a + b) v)"

definition sub_mat :: "mat \<Rightarrow> mat \<Rightarrow> error + mat" where
  "sub_mat = broadcast2 (broadcast2 (\<lambda>x y. Inr (x - y)))"

text \<open>
  The KL term of \<^verbatim>\<open>loss_function\<close> (the local \<^verbatim>\<open>KLD\<close>). The quotient
  \<^verbatim>\<open>-0.5 / n_nodes\<close> is evaluated first and raises ZeroDivisionError for a node
  count of zero; then the tensor expression
  \<^verbatim>\<open>1 + 2 * logvar - mu.pow(2) - logvar.exp().pow(2)\<close>, summed along dimension 1
  and averaged.
\<close>

definition KLD :: "mat \<Rightarrow> mat \<Rightarrow> nat \<Rightarrow> error + real option" where
  "KLD mu logvar n_nodes =
     (if n_nodes = 0 then Inl ZeroDivisionError
      else
        ebind (sub_mat (map (map (\<lambda>l. 1 + 2 * l)) logvar) (map (map (\<lambda>m. m ^ 2)) mu)) (\<lambda>t1.
        ebind (sub_mat t1 (map (map (\<lambda>l. (exp l) ^ 2)) logvar)) (\<lambda>t2.
        Inr (nan_scale (- 0.5 / real n_nodes) (torch_mean (map sum_list t2))))))"

text \<open>\<^verbatim>\<open>loss_function\<close>; the parameter \<^verbatim>\<open>norm\<close> is written \<open>nrm\<close>.\<close>

definition loss_function ::
  "tensor3 \<Rightarrow> mat \<Rightarrow> mat \<Rightarrow> mat \<Rightarrow> nat \<Rightarrow> real \<Rightarrow> real \<Rightarrow> error + real option" where
  "loss_function preds labels mu logvar n_nodes nrm pos_weight =
     (let labels3 = repeat_last 10 (unsqueeze2 labels) in
      ebind (binary_cross_entropy_with_logits preds labels3 pos_weight) (\<lambda>bce.
      ebind (KLD mu logvar n_nodes) (\<lambda>kld.
      Inr (nan_add (nan_scale nrm bce) kld))))"

text \<open>
  The KL term as the specification words it: \<open>-0.5\<close> times the mean over the nodes of the
  sum over the latent dimensions of \<open>1 + logvar - mu\<^sup>2 - exp logvar\<close>.
\<close>

definition spec_KL :: "mat \<Rightarrow> mat \<Rightarrow> real option" where
  "spec_KL mu logvar =
     nan_scale (- 0.5)
       (torch_mean (map sum_list (map2 (map2 (\<lambda>m l. 1 + l - m ^ 2 - exp l)) mu logvar)))"

text \<open>
  The closed-form KL divergence from a Gaussian with mean \<open>m\<close> and standard deviation
  \<open>s\<close> to the standard normal.
\<close>

definition kl_std_normal :: "real \<Rightarrow> real \<Rightarrow> real" where
  "kl_std_normal m s = (s ^ 2 + m ^ 2 - 1 - ln (s ^ 2)) / 2"

text \<open>Reordering the first dimension, and the first two, by a list of positions.\<close>

definition permute_rows :: "nat list \<Rightarrow> 'a list \<Rightarrow> 'a list" where
  "permute_rows ps t = map (\<lambda>i. t ! i) ps"

definition permute_rows_cols :: "nat list \<Rightarrow> 'a list list \<Rightarrow> 'a list list" where
  "permute_rows_cols ps t = map (permute_rows ps) (permute_rows ps t)"

text \<open>The tensor under the sum of the KL term, for operands of equal shape.\<close>

definition kld_rows :: "mat \<Rightarrow> mat \<Rightarrow> mat" where
  "kld_rows mu logvar =
     map2 (map2 (-)) (map2 (map2 (-)) (map (map (\<lambda>l. 1 + 2 * l)) logvar) (map (map (\<lambda>m. m ^ 2)) mu))
       (map (map (\<lambda>l. (exp l) ^ 2)) logvar)"

section \<open>The model factory\<close>

text \<open>
  \<^verbatim>\<open>get_model\<close> looks the configured name up among the attributes of the module
  \<^verbatim>\<open>model\<close> and calls what it finds with \<^verbatim>\<open>(args, data)\<close>. The attributes
  are the names the module binds, in source order: the imports, \<^verbatim>\<open>get_model\<close>
  itself, and the six classes, each with the number of positional parameters its
  \<^verbatim>\<open>__init__\<close> takes after \<^verbatim>\<open>self\<close> (none has a default). The attributes that
  the interpreter adds to every module (\<^verbatim>\<open>__name__\<close>, \<^verbatim>\<open>__doc__\<close>, ...) are left
  out.
\<close>

datatype attr = ImportedModule | ImportedClass | LocalFunction nat | LocalClass nat

definition module_namespace :: "(string \<times> attr) list" where
  "module_namespace =
     [(''importlib'', ImportedModule), (''inspect'', ImportedModule), (''sys'', ImportedModule),
      (''torch'', ImportedModule), (''nn'', ImportedModule), (''F'', ImportedModule),
      (''pyg'', ImportedModule), (''torch_geometric'', ImportedModule),
      (''GCNConv'', ImportedClass), (''RGCNConv'', ImportedClass), (''Linear'', ImportedClass),
      (''Parameter'', ImportedClass), (''GraphConvolution'', ImportedClass),
      (''GAE'', ImportedClass),
      (''get_model'', LocalFunction 2),
      (''LinearClassifier'', LocalClass 1),
      (''InnerProductDecoder'', LocalClass 1),
      (''RGCNEncoder'', LocalClass 3),
      (''MLPEncoder'', LocalClass 2),
      (''DistMultDecoder'', LocalClass 2),
      (''HetDistMultDecoder'', LocalClass 2)]"

text \<open>
  The list in the error message: \<^verbatim>\<open>inspect.getmembers\<close> returns the members sorted
  by name and keeps those that are classes defined in this module.
\<close>

definition is_local_class :: "attr \<Rightarrow> bool" where
  "is_local_class a = (case a of LocalClass n \<Rightarrow> True | _ \<Rightarrow> False)"

definition getmembers :: "(attr \<Rightarrow> bool) \<Rightarrow> (string \<times> attr) list" where
  "getmembers predicate = filter (\<lambda>x. predicate (snd x)) (sort_key fst module_namespace)"

text \<open>
  What the factory returns: an encoder built by this module, or an object built by an
  imported class. Calling an imported class runs library code; its outcome is the
  parameter \<open>lib\<close>.
\<close>

datatype model_obj = MLPEncoderObj MLPEncoder | LibraryObj string

type_synonym lib_call = "string \<Rightarrow> config \<Rightarrow> graph_data \<Rightarrow> error + model_obj"

text \<open>
  \<^verbatim>\<open>_class(args, data)\<close>.
  \<^item> A module is not callable: TypeError.
  \<^item> \<^verbatim>\<open>get_model(args, data)\<close> is the same call again, with the same name: the
    recursion never ends and Python raises RecursionError.
  \<^item> A class whose \<^verbatim>\<open>__init__\<close> does not take two arguments: TypeError.
  \<^item> \<^verbatim>\<open>MLPEncoder(args, data)\<close> builds the encoder.
  \<^item> \<^verbatim>\<open>DistMultDecoder(args, data)\<close> calls \<^verbatim>\<open>torch.empty(args, data)\<close> and
    \<^verbatim>\<open>HetDistMultDecoder(args, data)\<close> evaluates \<^verbatim>\<open>args + 1\<close>: the configuration
    object is not a number, TypeError.
\<close>

definition call_attr ::
  "lib_call \<Rightarrow> mlp_init \<Rightarrow> string \<Rightarrow> attr \<Rightarrow> config \<Rightarrow> graph_data \<Rightarrow> error + model_obj" where
  "call_attr lib init name a args data =
     (case a of
        ImportedModule \<Rightarrow> Inl TypeError
      | ImportedClass \<Rightarrow> lib name args data
      | LocalFunction n \<Rightarrow> (if n = 2 then Inl RecursionError else Inl TypeError)
      | LocalClass n \<Rightarrow>
          (if n \<noteq> 2 then Inl TypeError
           else if name = ''MLPEncoder'' then Inr (MLPEncoderObj (MLPEncoder_init init args data))
           else Inl TypeError))"

definition get_model :: "lib_call \<Rightarrow> mlp_init \<Rightarrow> config \<Rightarrow> graph_data \<Rightarrow> error + model_obj" where
  "get_model lib init args data =
     (let msg = NotImplementedError (args_model args) (map fst (getmembers is_local_class))
      in case map_of module_namespace (args_model args) of
           None \<Rightarrow> Inl msg
         | Some cls \<Rightarrow> call_attr lib init (args_model args) cls args data)"

subsection \<open>Properties of the factory\<close>

lemma recognized_models:
  "map fst (getmembers is_local_class) =
     [''DistMultDecoder'', ''HetDistMultDecoder'', ''InnerProductDecoder'',
      ''LinearClassifier'', ''MLPEncoder'', ''RGCNEncoder'']"
  by code_simp

lemma get_model_unknown_name:
  "get_model lib init (args\<lparr>args_model := ''GCN''\<rparr>) data =
     Inl (NotImplementedError ''GCN''
            [''DistMultDecoder'', ''HetDistMultDecoder'', ''InnerProductDecoder'',
             ''LinearClassifier'', ''MLPEncoder'', ''RGCNEncoder''])"
  by (simp add: get_model_def recognized_models module_namespace_def)

lemma get_model_MLPEncoder:
  "args_model args = ''MLPEncoder'' \<Longrightarrow>
   get_model lib init args data = Inr (MLPEncoderObj (MLPEncoder_init init args data))"
  by (simp add: get_model_def call_attr_def module_namespace_def)

lemma get_model_imported_module:
  "args_model args = ''sys'' \<Longrightarrow> get_model lib init args data = Inl TypeError"
  by (simp add: get_model_def call_attr_def module_namespace_def)

text \<open>
  Claim C1. The claim: for every name of a class defined in the module the factory returns
  an instance of that class, and for every other name it raises NotImplementedError with
  the list of model names. On the code, the name \<^verbatim>\<open>LinearClassifier\<close> is in the list
  that the error message offers, and the factory calls the class with two arguments where
  its constructor takes one: the call raises TypeError and no instance is returned.
\<close>

theorem get_model_LinearClassifier_TypeError:
  "get_model lib init (args\<lparr>args_model := ''LinearClassifier''\<rparr>) data = Inl TypeError"
  by (simp add: get_model_def call_attr_def module_namespace_def)

subsection \<open>Properties of the MLP encoder\<close>

text \<open>
  Claim C10. The constructor assigns \<^verbatim>\<open>featureless\<close> exactly when the data has no
  node feature matrix, and never assigns it a false value. An encoder built from data with
  a feature matrix fails every forward call with AttributeError, in either mode, whatever
  the batch and the dropout draws.
\<close>

theorem MLPEncoder_featureless_only_without_x:
  "(featureless (MLPEncoder_init init args data) \<noteq> None) = (data_x data = None)
   \<and> featureless (MLPEncoder_init init args data) \<noteq> Some False
   \<and> (data_x data \<noteq> None \<longrightarrow>
        MLPEncoder_forward ((MLPEncoder_init init args data)\<lparr>enc_training := t\<rparr>)
          keep1 keep2 batch = Inl AttributeError)"
  by (cases "data_x data")
     (simp_all add: MLPEncoder_init_def MLPEncoder_forward_def getattr_opt_def ebind_def)

text \<open>
  An encoder built from data with a one-by-one feature matrix, put in evaluation mode:
  its forward pass raises AttributeError.
\<close>

theorem MLPEncoder_featureless_only_without_x_witness:
  "MLPEncoder_forward
     ((MLPEncoder_init
         \<lparr> init_node_embeddings = [[0]], init_linear1 = (\<lambda>n. [replicate n 1]),
           init_bias1 = [0], init_linear2 = [[1]], init_bias2 = [0],
           init_linear3 = [[1]], init_bias3 = [0] \<rparr>
         \<lparr> args_model = ''MLPEncoder'', args_hidden_dim = 1, args_dropout = 0,
           args_num_classes = 1 \<rparr>
         \<lparr> data_x = Some [[1]], data_num_nodes = 1 \<rparr>)\<lparr>enc_training := False\<rparr>)
     (\<lambda>i j. True) (\<lambda>i j. True) \<lparr> batch_x = Some [[1]], batch_node_ids = [0], pos_edge_index = [],
       neg_edge_index = None \<rparr>
   = Inl AttributeError"
  using MLPEncoder_featureless_only_without_x
    [of "\<lparr> init_node_embeddings = [[0]], init_linear1 = (\<lambda>n. [replicate n 1]),
           init_bias1 = [0], init_linear2 = [[1]], init_bias2 = [0],
           init_linear3 = [[1]], init_bias3 = [0] \<rparr>"
        "\<lparr> args_model = ''MLPEncoder'', args_hidden_dim = 1, args_dropout = 0,
           args_num_classes = 1 \<rparr>"
        "\<lparr> data_x = Some [[1]], data_num_nodes = 1 \<rparr>"
        False "\<lambda>i j. True" "\<lambda>i j. True" "\<lparr> batch_x = Some [[1]], batch_node_ids = [0], pos_edge_index = [],
       neg_edge_index = None \<rparr>"]
  by simp

section \<open>Properties of the loss function\<close>

subsection \<open>Shapes, broadcasting and sums\<close>

lemma collect_map_Inr:
  "(\<And>x. x \<in> set xs \<Longrightarrow> f x = Inr (g x)) \<Longrightarrow> collect (map f xs) = Inr (map g xs)"
  by (induction xs) auto

lemma broadcast2_same_length:
  assumes "length xs = length ys"
    and "\<And>x y. (x, y) \<in> set (zip xs ys) \<Longrightarrow> f x y = Inr (g x y)"
  shows "broadcast2 f xs ys = Inr (map2 g xs ys)"
proof -
  have "collect (map (\<lambda>p. f (fst p) (snd p)) (zip xs ys))
          = Inr (map (\<lambda>p. g (fst p) (snd p)) (zip xs ys))"
    by (rule collect_map_Inr) (use assms(2) in auto)
  then show ?thesis
    using assms(1) by (simp add: broadcast2_def case_prod_unfold)
qed

lemma is_mat_row: "is_mat n d m \<Longrightarrow> r \<in> set m \<Longrightarrow> length r = d"
  by (simp add: is_mat_def list_all_iff)

lemma is_mat_length: "is_mat n d m \<Longrightarrow> length m = n"
  by (simp add: is_mat_def)

lemma sub_mat_same_shape:
  assumes "is_mat n d a" "is_mat n d b"
  shows "sub_mat a b = Inr (map2 (map2 (-)) a b)"
  unfolding sub_mat_def
proof (rule broadcast2_same_length)
  show "length a = length b" using assms by (simp add: is_mat_def)
next
  fix x y assume "(x, y) \<in> set (zip a b)"
  then have "x \<in> set a" "y \<in> set b" by (auto dest: set_zip_leftD set_zip_rightD)
  then have "length x = length y" using assms by (simp add: is_mat_row)
  then show "broadcast2 (\<lambda>x y. Inr (x - y)) x y = Inr (map2 (-) x y)"
    by (rule broadcast2_same_length) simp
qed

lemma is_mat_map: "is_mat n d m \<Longrightarrow> is_mat n d (map (map f) m)"
  by (simp add: is_mat_def list_all_iff)

lemma is_mat_map2:
  assumes "is_mat n d a" "is_mat n d b"
  shows "is_mat n d (map2 (map2 f) a b)"
proof -
  have "length r = d" if "r \<in> set (map2 (map2 f) a b)" for r
  proof -
    from that obtain x y where xy: "(x, y) \<in> set (zip a b)" and r: "r = map2 f x y"
      by auto
    from xy have "x \<in> set a" "y \<in> set b"
      by (auto dest: set_zip_leftD set_zip_rightD)
    with assms have "length x = d" "length y = d" by (simp_all add: is_mat_row)
    with r show ?thesis by simp
  qed
  then show ?thesis using assms by (simp add: is_mat_def list_all_iff)
qed

lemma sum_list_rows:
  assumes "is_mat n d m"
  shows "sum_list (map sum_list m) = (\<Sum>i<n. \<Sum>j<d. m ! i ! j)"
proof -
  have "sum_list (map sum_list m) = (\<Sum>i<n. sum_list (m ! i))"
    using assms by (simp add: sum_list_sum_nth is_mat_def atLeast0LessThan)
  also have "\<dots> = (\<Sum>i<n. \<Sum>j<d. m ! i ! j)"
  proof (rule sum.cong[OF refl])
    fix i assume "i \<in> {..<n}"
    then have "length (m ! i) = d" using assms by (simp add: is_mat_def list_all_length)
    then show "sum_list (m ! i) = (\<Sum>j<d. m ! i ! j)"
      by (simp add: sum_list_sum_nth atLeast0LessThan)
  qed
  finally show ?thesis .
qed

lemma map2_entry:
  "is_mat n d a \<Longrightarrow> is_mat n d b \<Longrightarrow> i < n \<Longrightarrow> j < d \<Longrightarrow>
   map2 (map2 f) a b ! i ! j = f (a ! i ! j) (b ! i ! j)"
  by (simp add: is_mat_def list_all_length)

lemma map_entry:
  "is_mat n d a \<Longrightarrow> i < n \<Longrightarrow> j < d \<Longrightarrow> map (map f) a ! i ! j = f (a ! i ! j)"
  by (simp add: is_mat_def list_all_length)

lemma kld_tensor:
  assumes "is_mat n d mu" "is_mat n d logvar"
  shows "ebind (sub_mat (map (map (\<lambda>l. 1 + 2 * l)) logvar) (map (map (\<lambda>m. m ^ 2)) mu)) (\<lambda>t1.
         ebind (sub_mat t1 (map (map (\<lambda>l. (exp l) ^ 2)) logvar)) f)
       = f (kld_rows mu logvar)"
proof -
  let ?a = "map (map (\<lambda>l. 1 + 2 * l)) logvar"
  let ?b = "map (map (\<lambda>m. m ^ 2)) mu"
  let ?c = "map (map (\<lambda>l. (exp l) ^ 2)) logvar"
  have 1: "sub_mat ?a ?b = Inr (map2 (map2 (-)) ?a ?b)"
    using assms by (intro sub_mat_same_shape is_mat_map)
  have 2: "sub_mat (map2 (map2 (-)) ?a ?b) ?c = Inr (map2 (map2 (-)) (map2 (map2 (-)) ?a ?b) ?c)"
    using assms by (intro sub_mat_same_shape is_mat_map is_mat_map2)
  show ?thesis by (simp only: 1 2 ebind_def sum.case kld_rows_def)
qed

lemma kld_rows_is_mat: "is_mat n d mu \<Longrightarrow> is_mat n d logvar \<Longrightarrow> is_mat n d (kld_rows mu logvar)"
  unfolding kld_rows_def by (intro is_mat_map2 is_mat_map)

lemma kld_rows_entry:
  assumes "is_mat n d mu" "is_mat n d logvar" "i < n" "j < d"
  shows "kld_rows mu logvar ! i ! j = 1 + 2 * (logvar ! i ! j) - (mu ! i ! j) ^ 2 - (exp (logvar ! i ! j)) ^ 2"
proof -
  let ?a = "map (map (\<lambda>l. 1 + 2 * l)) logvar"
  let ?b = "map (map (\<lambda>m. m ^ 2)) mu"
  let ?c = "map (map (\<lambda>l. (exp l) ^ 2)) logvar"
  have a: "is_mat n d ?a" and b: "is_mat n d ?b" and c: "is_mat n d ?c"
    using assms(1,2) by (simp_all add: is_mat_map)
  have ab: "is_mat n d (map2 (map2 (-)) ?a ?b)"
    using a b by (rule is_mat_map2)
  have "kld_rows mu logvar ! i ! j = ?a ! i ! j - ?b ! i ! j - ?c ! i ! j"
    unfolding kld_rows_def
    by (simp only: map2_entry[OF ab c assms(3,4)] map2_entry[OF a b assms(3,4)])
  then show ?thesis
    by (simp only: map_entry[OF assms(2,3,4)] map_entry[OF assms(1,3,4)])
qed

lemma KLD_value:
  assumes "is_mat n d mu" "is_mat n d logvar" "0 < n" "0 < n_nodes"
  shows "KLD mu logvar n_nodes =
     Inr (Some (- 0.5 / real n_nodes *
        ((\<Sum>i<n. \<Sum>j<d. 1 + 2 * (logvar ! i ! j) - (mu ! i ! j) ^ 2 - (exp (logvar ! i ! j)) ^ 2) / real n)))"
proof -
  have ne: "kld_rows mu logvar \<noteq> []" and len: "length (kld_rows mu logvar) = n"
    using kld_rows_is_mat[OF assms(1,2)] assms(3) by (auto simp: is_mat_def)
  have "sum_list (map sum_list (kld_rows mu logvar)) = (\<Sum>i<n. \<Sum>j<d. kld_rows mu logvar ! i ! j)"
    by (rule sum_list_rows[OF kld_rows_is_mat[OF assms(1,2)]])
  also have "\<dots> = (\<Sum>i<n. \<Sum>j<d. 1 + 2 * (logvar ! i ! j) - (mu ! i ! j) ^ 2 - (exp (logvar ! i ! j)) ^ 2)"
    by (intro sum.cong refl) (simp add: kld_rows_entry[OF assms(1,2)])
  finally have s: "sum_list (map sum_list (kld_rows mu logvar)) =
      (\<Sum>i<n. \<Sum>j<d. 1 + 2 * (logvar ! i ! j) - (mu ! i ! j) ^ 2 - (exp (logvar ! i ! j)) ^ 2)" .
  show ?thesis
    using assms(4) ne len
    by (simp add: KLD_def kld_tensor[OF assms(1,2)] torch_mean_def nan_scale_def s)
qed

lemma kl_std_normal_exp:
  "kl_std_normal m (exp l) = - (1 + 2 * l - m ^ 2 - (exp l) ^ 2) / 2"
  by (simp add: kl_std_normal_def ln_realpow field_simps)

subsection \<open>Reordering and multisets\<close>

lemma perm_list_props:
  assumes "mset ps = mset [0..<n]"
  shows "length ps = n" and "set ps = {0..<n}"
  using mset_eq_length[OF assms] mset_eq_setD[OF assms] by simp_all

lemma mset_permute_rows:
  assumes "mset ps = mset [0..<length t]"
  shows "mset (permute_rows ps t) = mset t"
proof -
  have "mset (permute_rows ps t) = image_mset ((!) t) (mset ps)"
    by (simp add: permute_rows_def)
  also have "\<dots> = mset (map ((!) t) [0..<length t])"
    by (simp only: assms mset_map)
  also have "\<dots> = mset t"
    by (simp only: map_nth)
  finally show ?thesis .
qed

lemma mset_concat_cong:
  assumes "mset xss = mset yss"
  shows "mset (concat xss) = mset (concat yss)"
proof -
  have "mset (concat xss) = sum_mset (image_mset mset (mset xss))"
    by (simp add: mset_concat sum_mset_sum_list[symmetric])
  also have "\<dots> = sum_mset (image_mset mset (mset yss))"
    by (simp only: assms)
  also have "\<dots> = mset (concat yss)"
    by (simp add: mset_concat sum_mset_sum_list[symmetric])
  finally show ?thesis .
qed

lemma mset_concat_map_cong:
  "(\<And>x. x \<in> set xs \<Longrightarrow> mset (f x) = mset (g x)) \<Longrightarrow>
   mset (concat (map f xs)) = mset (concat (map g xs))"
  by (induction xs) auto

lemma torch_mean_cong_mset:
  assumes "mset xs = mset ys"
  shows "torch_mean xs = torch_mean ys"
proof -
  have "sum_list xs = sum_list ys"
    using assms by (metis sum_mset_sum_list)
  moreover have "length xs = length ys"
    using assms by (rule mset_eq_length)
  moreover have "(xs = []) = (ys = [])"
    using assms by (metis mset_zero_iff)
  ultimately show ?thesis by (simp add: torch_mean_def)
qed

lemma permute_rows_map:
  assumes "set ps \<subseteq> {0..<length xs}"
  shows "permute_rows ps (map f xs) = map f (permute_rows ps xs)"
  using assms by (auto simp: permute_rows_def)

lemma permute_rows_map2:
  assumes "set ps \<subseteq> {0..<length xs}" "length ys = length xs"
  shows "permute_rows ps (map2 f xs ys) = map2 f (permute_rows ps xs) (permute_rows ps ys)"
proof -
  have "map2 f (map ((!) xs) ps) (map ((!) ys) ps) = map (\<lambda>i. f (xs ! i) (ys ! i)) ps"
    by (simp add: zip_map_map zip_same_conv_map)
  moreover have "map ((!) (map2 f xs ys)) ps = map (\<lambda>i. f (xs ! i) (ys ! i)) ps"
    using assms by (intro map_cong refl) auto
  ultimately show ?thesis by (simp add: permute_rows_def)
qed

lemma is_mat_permute_rows:
  assumes "set ps \<subseteq> {0..<n}" "is_mat n d m"
  shows "is_mat (length ps) d (permute_rows ps m)"
  using assms by (auto simp: is_mat_def permute_rows_def list_all_iff list_all_length subset_iff)

lemma concat_concat: "concat (concat xss) = concat (map concat xss)"
  by (induction xss) auto

lemma mset_flatten3_permute:
  assumes ps: "mset ps = mset [0..<n]" and t: "is_mat n n t"
  shows "mset (flatten3 (permute_rows_cols ps t)) = mset (flatten3 t)"
proof -
  have len: "length t = n" using t by (simp add: is_mat_def)
  have rows: "length m = n" if "m \<in> set t" for m
    using t that by (simp add: is_mat_row)
  have sub: "set (permute_rows ps t) \<subseteq> set t"
    using perm_list_props[OF ps] len by (auto simp: permute_rows_def)
  have "flatten3 (permute_rows_cols ps t)
          = concat (map (\<lambda>m. concat (permute_rows ps m)) (permute_rows ps t))"
    by (simp add: flatten3_def permute_rows_cols_def concat_concat comp_def)
  also have "mset \<dots> = mset (concat (map concat (permute_rows ps t)))"
  proof (rule mset_concat_map_cong)
    fix m assume "m \<in> set (permute_rows ps t)"
    then have "length m = n" using sub rows by auto
    then have "mset (permute_rows ps m) = mset m"
      using ps by (intro mset_permute_rows) simp
    then show "mset (concat (permute_rows ps m)) = mset (concat m)"
      by (rule mset_concat_cong)
  qed
  also have "\<dots> = mset (concat (map concat t))"
  proof (rule mset_concat_cong)
    have "mset (permute_rows ps t) = mset t"
      using ps len by (intro mset_permute_rows) simp
    then show "mset (map concat (permute_rows ps t)) = mset (map concat t)"
      by (simp only: mset_map)
  qed
  finally show ?thesis by (simp add: flatten3_def concat_concat)
qed


lemma set_permute_rows: "set ps \<subseteq> {0..<length t} \<Longrightarrow> set (permute_rows ps t) \<subseteq> set t"
  by (auto simp: permute_rows_def)

lemma length_permute_rows: "length (permute_rows ps t) = length ps"
  by (simp add: permute_rows_def)

lemma is_mat_permute_rows_cols:
  assumes "set ps \<subseteq> {0..<n}" "is_mat n n t"
  shows "is_mat (length ps) (length ps) (permute_rows_cols ps t)"
proof -
  have "length r = length ps" if "r \<in> set (permute_rows_cols ps t)" for r
    using that by (auto simp: permute_rows_cols_def length_permute_rows)
  then show ?thesis
    by (simp add: is_mat_def list_all_iff permute_rows_cols_def length_permute_rows)
qed

lemma permute_rows_cols_map:
  assumes ps: "set ps \<subseteq> {0..<n}" and t: "is_mat n n t"
  shows "permute_rows_cols ps (map (map h) t) = map (map h) (permute_rows_cols ps t)"
proof -
  have len: "length t = n" using t by (simp add: is_mat_def)
  have "permute_rows_cols ps (map (map h) t)
          = map (\<lambda>r. permute_rows ps (map h r)) (permute_rows ps t)"
    using ps len by (simp add: permute_rows_cols_def permute_rows_map)
  also have "\<dots> = map (\<lambda>r. map h (permute_rows ps r)) (permute_rows ps t)"
  proof (rule map_cong[OF refl])
    fix r assume "r \<in> set (permute_rows ps t)"
    then have "r \<in> set t" using set_permute_rows[of ps t] ps len by auto
    then have "length r = n" using t by (simp add: is_mat_row)
    then show "permute_rows ps (map h r) = map h (permute_rows ps r)"
      using ps by (intro permute_rows_map) simp
  qed
  finally show ?thesis by (simp add: permute_rows_cols_def)
qed

lemma permute_rows_cols_map2:
  assumes ps: "set ps \<subseteq> {0..<n}" and x: "is_mat n n x" and y: "is_mat n n y"
  shows "permute_rows_cols ps (map2 (map2 g) x y)
           = map2 (map2 g) (permute_rows_cols ps x) (permute_rows_cols ps y)"
proof -
  have lx: "length x = n" and ly: "length y = n" using x y by (simp_all add: is_mat_def)
  have "permute_rows ps (map2 (map2 g) x y)
          = map2 (map2 g) (permute_rows ps x) (permute_rows ps y)"
    using ps lx ly by (intro permute_rows_map2) simp_all
  then have "permute_rows_cols ps (map2 (map2 g) x y)
          = map (\<lambda>p. permute_rows ps (map2 g (fst p) (snd p)))
              (zip (permute_rows ps x) (permute_rows ps y))"
    by (simp add: permute_rows_cols_def case_prod_unfold)
  also have "\<dots> = map (\<lambda>p. map2 g (permute_rows ps (fst p)) (permute_rows ps (snd p)))
              (zip (permute_rows ps x) (permute_rows ps y))"
  proof (rule map_cong[OF refl])
    fix p assume "p \<in> set (zip (permute_rows ps x) (permute_rows ps y))"
    then have "fst p \<in> set (permute_rows ps x)" "snd p \<in> set (permute_rows ps y)"
      using set_zip_leftD[of "fst p" "snd p"] set_zip_rightD[of "fst p" "snd p"] by simp_all
    then have "fst p \<in> set x" "snd p \<in> set y"
      using set_permute_rows[of ps x] set_permute_rows[of ps y] ps lx ly by auto
    then have "length (fst p) = n" "length (snd p) = n"
      using x y by (simp_all add: is_mat_row)
    then show "permute_rows ps (map2 g (fst p) (snd p))
                 = map2 g (permute_rows ps (fst p)) (permute_rows ps (snd p))"
      using ps by (intro permute_rows_map2) simp_all
  qed
  finally show ?thesis
    by (simp add: permute_rows_cols_def zip_map_map case_prod_unfold)
qed

lemma shape_tensor3:
  assumes "is_tensor3 a b c t"
  shows "map (map length) t = replicate a (replicate b c)"
proof -
  have "map length m = replicate b c" if "m \<in> set t" for m
  proof -
    have "is_mat b c m" using assms that by (simp add: is_tensor3_def list_all_iff)
    then show ?thesis
      by (auto simp: is_mat_def list_all_iff intro!: replicate_eqI)
  qed
  then show ?thesis
    using assms by (auto simp: is_tensor3_def intro!: replicate_eqI)
qed

lemma is_tensor3_is_mat: "is_tensor3 a b c t \<Longrightarrow> is_mat a b t"
  by (simp add: is_tensor3_def is_mat_def list_all_iff)

lemma is_tensor3_permute:
  assumes ps: "set ps \<subseteq> {0..<n}" and t: "is_tensor3 n n c t"
  shows "is_tensor3 (length ps) (length ps) c (permute_rows_cols ps t)"
proof -
  have len: "length t = n" using t by (simp add: is_tensor3_def)
  have "is_mat (length ps) c m" if "m \<in> set (permute_rows_cols ps t)" for m
  proof -
    from that obtain r where r: "r \<in> set (permute_rows ps t)" and m: "m = permute_rows ps r"
      by (auto simp: permute_rows_cols_def)
    from r have "r \<in> set t" using set_permute_rows[of ps t] ps len by auto
    then have "is_mat n c r" using t by (simp add: is_tensor3_def list_all_iff)
    then show ?thesis unfolding m using ps by (intro is_mat_permute_rows)
  qed
  then show ?thesis
    by (simp add: is_tensor3_def list_all_iff permute_rows_cols_def length_permute_rows)
qed

lemma labels3_eq: "repeat_last 10 (unsqueeze2 labels) = map (map (replicate 10)) labels"
  by (simp add: repeat_last_def unsqueeze2_def comp_def)

lemma is_tensor3_labels3:
  "is_mat n m labels \<Longrightarrow> is_tensor3 n m 10 (map (map (replicate 10)) labels)"
  by (simp add: is_tensor3_def is_mat_def list_all_iff)

lemma kld_rows_permute:
  assumes ps: "set ps \<subseteq> {0..<n}" and mu: "is_mat n d mu" and lv: "is_mat n d logvar"
  shows "kld_rows (permute_rows ps mu) (permute_rows ps logvar)
           = permute_rows ps (kld_rows mu logvar)"
proof -
  have lm: "length mu = n" and ll: "length logvar = n"
    using mu lv by (simp_all add: is_mat_def)
  let ?a = "map (map (\<lambda>l. 1 + 2 * l)) logvar"
  let ?b = "map (map (\<lambda>m. m ^ 2)) mu"
  let ?c = "map (map (\<lambda>l. (exp l) ^ 2)) logvar"
  have a: "permute_rows ps ?a = map (map (\<lambda>l. 1 + 2 * l)) (permute_rows ps logvar)"
    using ps ll by (intro permute_rows_map) simp
  have b: "permute_rows ps ?b = map (map (\<lambda>m. m ^ 2)) (permute_rows ps mu)"
    using ps lm by (intro permute_rows_map) simp
  have c: "permute_rows ps ?c = map (map (\<lambda>l. (exp l) ^ 2)) (permute_rows ps logvar)"
    using ps ll by (intro permute_rows_map) simp
  have ab: "permute_rows ps (map2 (map2 (-)) ?a ?b)
              = map2 (map2 (-)) (permute_rows ps ?a) (permute_rows ps ?b)"
    using ps lm ll by (intro permute_rows_map2) simp_all
  have abc: "permute_rows ps (map2 (map2 (-)) (map2 (map2 (-)) ?a ?b) ?c)
              = map2 (map2 (-)) (permute_rows ps (map2 (map2 (-)) ?a ?b)) (permute_rows ps ?c)"
    using ps lm ll by (intro permute_rows_map2) simp_all
  show ?thesis
    unfolding kld_rows_def by (simp only: abc ab a b c)
qed

lemma KLD_permute:
  assumes ps: "mset ps = mset [0..<n]" and mu: "is_mat n d mu" and lv: "is_mat n d logvar"
  shows "KLD (permute_rows ps mu) (permute_rows ps logvar) n_nodes = KLD mu logvar n_nodes"
proof -
  have sub: "set ps \<subseteq> {0..<n}" and len: "length ps = n"
    using perm_list_props[OF ps] by simp_all
  have mu': "is_mat n d (permute_rows ps mu)" and lv': "is_mat n d (permute_rows ps logvar)"
    using is_mat_permute_rows[OF sub mu] is_mat_permute_rows[OF sub lv] len by simp_all
  have lk: "length (kld_rows mu logvar) = n"
    using kld_rows_is_mat[OF mu lv] by (simp add: is_mat_def)
  have "map sum_list (kld_rows (permute_rows ps mu) (permute_rows ps logvar))
          = permute_rows ps (map sum_list (kld_rows mu logvar))"
    using sub lk by (simp add: kld_rows_permute[OF sub mu lv] permute_rows_map)
  moreover have "mset (permute_rows ps (map sum_list (kld_rows mu logvar)))
          = mset (map sum_list (kld_rows mu logvar))"
    using ps lk by (intro mset_permute_rows) simp
  ultimately have "torch_mean (map sum_list (kld_rows (permute_rows ps mu) (permute_rows ps logvar)))
          = torch_mean (map sum_list (kld_rows mu logvar))"
    by (simp add: torch_mean_cong_mset)
  then show ?thesis
    by (simp add: KLD_def kld_tensor[OF mu lv] kld_tensor[OF mu' lv'])
qed

lemma BCE_permute:
  assumes ps: "mset ps = mset [0..<n]" and p: "is_tensor3 n n c preds" and l: "is_mat n n labels"
  shows "binary_cross_entropy_with_logits (permute_rows_cols ps preds)
            (repeat_last 10 (unsqueeze2 (permute_rows_cols ps labels))) pw
       = binary_cross_entropy_with_logits preds (repeat_last 10 (unsqueeze2 labels)) pw"
proof -
  have sub: "set ps \<subseteq> {0..<n}" and len: "length ps = n"
    using perm_list_props[OF ps] by simp_all
  let ?L = "map (map (replicate 10)) labels"
  have L: "is_tensor3 n n 10 ?L" using l by (rule is_tensor3_labels3)
  have Lp: "map (map (replicate 10)) (permute_rows_cols ps labels) = permute_rows_cols ps ?L"
    by (rule permute_rows_cols_map[OF sub l, symmetric])
  have p': "is_tensor3 n n c (permute_rows_cols ps preds)"
    using is_tensor3_permute[OF sub p] len by simp
  have L': "is_tensor3 n n 10 (permute_rows_cols ps ?L)"
    using is_tensor3_permute[OF sub L] len by simp
  have pm: "is_mat n n preds" and Lm: "is_mat n n ?L"
    using p L by (simp_all add: is_tensor3_is_mat)
  have G: "map2 (map2 (map2 (bce_elem pw))) (permute_rows_cols ps preds) (permute_rows_cols ps ?L)
             = permute_rows_cols ps (map2 (map2 (map2 (bce_elem pw))) preds ?L)"
    by (rule permute_rows_cols_map2[OF sub pm Lm, where g = "\<lambda>a b. map2 (bce_elem pw) a b", symmetric])
  have Gm: "is_mat n n (map2 (map2 (map2 (bce_elem pw))) preds ?L)"
    using pm Lm by (rule is_mat_map2)
  have tm: "torch_mean (flatten3 (permute_rows_cols ps (map2 (map2 (map2 (bce_elem pw))) preds ?L)))
          = torch_mean (flatten3 (map2 (map2 (map2 (bce_elem pw))) preds ?L))"
    by (intro torch_mean_cong_mset mset_flatten3_permute[OF ps Gm])
  have s1: "map (map length) (permute_rows_cols ps preds) = map (map length) preds"
    by (simp only: shape_tensor3[OF p] shape_tensor3[OF p'])
  have s2: "map (map length) (permute_rows_cols ps ?L) = map (map length) ?L"
    by (simp only: shape_tensor3[OF L] shape_tensor3[OF L'])
  show ?thesis
    by (simp only: binary_cross_entropy_with_logits_def labels3_eq Lp G s1 s2 tm)
qed

subsection \<open>The claims about the loss\<close>

text \<open>
  Claim C2, as the code has it. For mean and log-variance tensors of the same shape
  \<open>n \<times> d\<close> with \<open>n > 0\<close>, and a node count \<open>n_nodes > 0\<close>, the KL term is
  \<open>-0.5 / n_nodes\<close> times the mean over the rows of the sum over the latent dimensions
  of \<open>1 + 2 logvar - mu\<^sup>2 - (exp logvar)\<^sup>2\<close>. This is the closed-form KL divergence to
  the standard normal of the Gaussian with mean \<open>mu\<close> and standard deviation
  \<open>exp logvar\<close> (the tensor named \<^verbatim>\<open>logvar\<close> is read as the logarithm of the standard
  deviation), averaged over the rows and divided once more by \<open>n_nodes\<close>. The loss is the
  sum of this term and the reconstruction cost \<open>norm * bce\<close>.
\<close>

theorem KLD_closed_form:
  assumes "is_mat n d mu" and "is_mat n d logvar" and "0 < n" and "0 < n_nodes"
  shows "KLD mu logvar n_nodes =
           Inr (Some (- 0.5 / real n_nodes *
             ((\<Sum>i<n. \<Sum>j<d. 1 + 2 * (logvar ! i ! j) - (mu ! i ! j) ^ 2 - (exp (logvar ! i ! j)) ^ 2)
               / real n)))
       \<and> KLD mu logvar n_nodes =
           Inr (Some ((\<Sum>i<n. \<Sum>j<d. kl_std_normal (mu ! i ! j) (exp (logvar ! i ! j)))
               / real n / real n_nodes))
       \<and> loss_function preds labels mu logvar n_nodes nrm pos_weight =
           ebind (binary_cross_entropy_with_logits preds (repeat_last 10 (unsqueeze2 labels)) pos_weight)
             (\<lambda>bce. Inr (nan_add (nan_scale nrm bce)
                (Some (- 0.5 / real n_nodes *
                   ((\<Sum>i<n. \<Sum>j<d. 1 + 2 * (logvar ! i ! j) - (mu ! i ! j) ^ 2 - (exp (logvar ! i ! j)) ^ 2)
                     / real n)))))"
proof -
  let ?S = "\<Sum>i<n. \<Sum>j<d. 1 + 2 * (logvar ! i ! j) - (mu ! i ! j) ^ 2 - (exp (logvar ! i ! j)) ^ 2"
  have k: "KLD mu logvar n_nodes = Inr (Some (- 0.5 / real n_nodes * (?S / real n)))"
    by (rule KLD_value[OF assms])
  have e: "kl_std_normal m (exp l) = (- 1 / 2) * (1 + 2 * l - m ^ 2 - (exp l) ^ 2)" for m l
    by (simp add: kl_std_normal_exp field_simps)
  have "(\<Sum>i<n. \<Sum>j<d. kl_std_normal (mu ! i ! j) (exp (logvar ! i ! j)))
          = (\<Sum>i<n. \<Sum>j<d. (- 1 / 2) * (1 + 2 * (logvar ! i ! j) - (mu ! i ! j) ^ 2 - (exp (logvar ! i ! j)) ^ 2))"
    by (simp only: e)
  also have "\<dots> = (- 1 / 2) * ?S"
    by (simp only: sum_distrib_left)
  finally have k2: "(\<Sum>i<n. \<Sum>j<d. kl_std_normal (mu ! i ! j) (exp (logvar ! i ! j))) / real n / real n_nodes
           = - 0.5 / real n_nodes * (?S / real n)"
    by simp
  show ?thesis
    by (simp only: k k2 loss_function_def Let_def ebind_def sum.case)
qed

text \<open>
  The hypotheses of the theorem hold for two nodes with one latent dimension.
\<close>

theorem KLD_closed_form_witness:
  "KLD [[1], [1]] [[0], [0]] 2 = Inr (Some (1 / 4))"
proof -
  have m: "is_mat 2 1 [[1::real], [1]]" and l: "is_mat 2 1 [[0::real], [0]]"
    by (simp_all add: is_mat_def)
  show ?thesis
    using KLD_closed_form[OF m l, of 2]
    by (simp add: lessThan_Suc numeral_2_eq_2)
qed

text \<open>
  Claim C2, as the specification states it, fails on the code. With two nodes, \<open>mu = 1\<close>,
  \<open>logvar = 0\<close> the code returns \<open>1/4\<close> where the stated formula gives \<open>1/2\<close> (the
  extra division by \<open>n_nodes\<close>); with one node, \<open>mu = 0\<close>, \<open>logvar = ln 2\<close> the code
  returns \<open>3/2 - ln 2\<close> where the stated formula gives \<open>(1 - ln 2) / 2\<close> (the doubled
  \<open>logvar\<close> and the squared exponential).
\<close>

theorem KLD_differs_from_spec_formula:
  "KLD [[1], [1]] [[0], [0]] 2 \<noteq> Inr (spec_KL [[1], [1]] [[0], [0]])
   \<and> KLD [[0]] [[ln 2]] 1 \<noteq> Inr (spec_KL [[0]] [[ln 2]])"
proof -
  have 1: "KLD [[1], [1]] [[0], [0]] 2 = Inr (Some (1 / 4))"
    by (simp add: KLD_def sub_mat_def broadcast2_def ebind_def torch_mean_def nan_scale_def)
  have 2: "spec_KL [[1], [1]] [[0], [0]] = Some (1 / 2)"
    by (simp add: spec_KL_def torch_mean_def nan_scale_def)
  have 3: "KLD [[0]] [[ln 2]] 1 = Inr (Some (3 / 2 - ln 2))"
    by (simp add: KLD_def sub_mat_def broadcast2_def ebind_def torch_mean_def nan_scale_def
        field_simps)
  have 4: "spec_KL [[0]] [[ln 2]] = Some ((1 - ln 2) / 2)"
    by (simp add: spec_KL_def torch_mean_def nan_scale_def field_simps)
  have "ln (2::real) < 1" by (rule ln_2_less_1)
  then have "3 / 2 - ln 2 \<noteq> (1 - ln (2::real)) / 2" by (simp add: field_simps)
  then show ?thesis unfolding 1 2 3 4 by simp
qed

lemma flatten3_replicate:
  "flatten3 (replicate a (replicate b (replicate c x))) = replicate (a * b * c) x"
proof -
  have r: "concat (replicate k (replicate m y)) = replicate (k * m) y" for k m and y :: 'b
    by (induction k) (simp_all add: replicate_add)
  show ?thesis by (simp add: flatten3_def r mult.assoc)
qed

lemma bce_elem_zero: "bce_elem 1 0 0 = ln 2"
  by (simp add: bce_elem_def)

lemma map2_replicate: "map2 f (replicate n x) (replicate n y) = replicate n (f x y)"
  by simp

text \<open>
  Claim C6. With four nodes, \<open>norm = 1\<close>, \<open>pos_weight = 1\<close>, all-zero logits of shape
  \<open>4 \<times> 4 \<times> 10\<close>, all-zero labels, and zero mean and log-variance tensors of any latent
  dimension \<open>d\<close>, the cross-entropy term is \<open>ln 2\<close>, the KL term is zero and the loss is
  \<open>ln 2\<close>.
\<close>

theorem loss_function_zero_example:
  "binary_cross_entropy_with_logits (replicate 4 (replicate 4 (replicate 10 0)))
       (repeat_last 10 (unsqueeze2 (replicate 4 (replicate 4 0)))) 1 = Inr (Some (ln 2))
   \<and> KLD (replicate 4 (replicate d 0)) (replicate 4 (replicate d 0)) 4 = Inr (Some 0)
   \<and> loss_function (replicate 4 (replicate 4 (replicate 10 0))) (replicate 4 (replicate 4 0))
       (replicate 4 (replicate d 0)) (replicate 4 (replicate d 0)) 4 1 1 = Inr (Some (ln 2))"
proof -
  have b: "binary_cross_entropy_with_logits (replicate 4 (replicate 4 (replicate 10 0)))
       (repeat_last 10 (unsqueeze2 (replicate 4 (replicate 4 0)))) 1 = Inr (Some (ln 2))"
    by (simp add: binary_cross_entropy_with_logits_def labels3_eq flatten3_replicate
        bce_elem_zero torch_mean_def sum_list_replicate)
  have z: "is_mat 4 d (replicate 4 (replicate d (0::real)))"
    by (simp add: is_mat_def list_all_iff)
  have k: "KLD (replicate 4 (replicate d 0)) (replicate 4 (replicate d 0)) 4 = Inr (Some 0)"
    by (simp add: KLD_value[OF z z])
  show ?thesis
    by (simp add: b k loss_function_def ebind_def nan_add_def nan_scale_def)
qed

text \<open>
  Claim C5. The loss is computed against the label matrix with every entry replicated
  along a new last dimension of size ten. The ten is a literal of the function, which has
  no parameter for the number of classes: predictions with any other number of channels
  (on a non-empty graph) are rejected by the size check of the cross-entropy.
\<close>

theorem labels_broadcast_ten_channels:
  "loss_function preds labels mu logvar n_nodes nrm pos_weight =
     ebind (binary_cross_entropy_with_logits preds (map (map (replicate 10)) labels) pos_weight)
       (\<lambda>bce. ebind (KLD mu logvar n_nodes) (\<lambda>kld. Inr (nan_add (nan_scale nrm bce) kld)))
   \<and> (is_tensor3 n m num_classes preds \<and> is_mat n m labels \<and> 0 < n \<and> 0 < m \<and> num_classes \<noteq> 10
        \<longrightarrow> loss_function preds labels mu logvar n_nodes nrm pos_weight = Inl ValueError)"
proof -
  have 1: "loss_function preds labels mu logvar n_nodes nrm pos_weight =
     ebind (binary_cross_entropy_with_logits preds (map (map (replicate 10)) labels) pos_weight)
       (\<lambda>bce. ebind (KLD mu logvar n_nodes) (\<lambda>kld. Inr (nan_add (nan_scale nrm bce) kld)))"
    by (simp add: loss_function_def labels3_eq)
  have 2: "loss_function preds labels mu logvar n_nodes nrm pos_weight = Inl ValueError"
    if p: "is_tensor3 n m num_classes preds" and l: "is_mat n m labels"
      and pos: "0 < n" "0 < m" and c: "num_classes \<noteq> 10"
  proof -
    have "replicate n (replicate m num_classes) \<noteq> replicate n (replicate m (10::nat))"
      using pos c by (cases n; cases m) simp_all
    then have "map (map length) preds \<noteq> map (map length) (map (map (replicate 10)) labels)"
      by (simp only: shape_tensor3[OF p] shape_tensor3[OF is_tensor3_labels3[OF l]]
          not_False_eq_True)
    then have "binary_cross_entropy_with_logits preds (map (map (replicate 10)) labels) pos_weight
                 = Inl ValueError"
      unfolding binary_cross_entropy_with_logits_def by (rule if_P)
    then show ?thesis
      by (simp only: 1 ebind_def sum.case)
  qed
  show ?thesis using 1 2 by blast
qed

text \<open>
  Predictions with three channels for one node pair are rejected.
\<close>

theorem labels_broadcast_ten_channels_witness:
  "loss_function [[[0, 0, 0]]] [[1]] [[0]] [[0]] 1 1 1 = Inl ValueError"
  by (rule mp[OF labels_broadcast_ten_channels
          [of "[[[0, 0, 0]]]" "[[1]]" "[[0]]" "[[0]]" 1 1 1 1 1 3, THEN conjunct2]])
     (simp add: is_tensor3_def is_mat_def)

text \<open>
  Claim C9. Let \<open>ps\<close> be a permutation of the node indices \<open>0, ..., n - 1\<close>. Reordering
  the rows and columns of the \<open>n \<times> n \<times> c\<close> predictions and of the \<open>n \<times> n\<close> labels, and
  the rows of the \<open>n \<times> d\<close> mean and log-variance tensors, by \<open>ps\<close> does not change the
  result of the loss function (the value, NaN, or the exception).
\<close>

theorem loss_function_permutation_invariant:
  assumes "mset ps = mset [0..<n]"
    and "is_tensor3 n n c preds" and "is_mat n n labels"
    and "is_mat n d mu" and "is_mat n d logvar"
  shows "loss_function (permute_rows_cols ps preds) (permute_rows_cols ps labels)
            (permute_rows ps mu) (permute_rows ps logvar) n_nodes nrm pos_weight
       = loss_function preds labels mu logvar n_nodes nrm pos_weight"
  by (simp add: loss_function_def BCE_permute[OF assms(1,2,3)] KLD_permute[OF assms(1,4,5)])

text \<open>
  The two nodes swapped: the hypotheses hold and both calls return the same value.
\<close>

theorem loss_function_permutation_invariant_witness:
  "loss_function
     [[replicate 10 4, replicate 10 3], [replicate 10 2, replicate 10 1]]
     [[0, 1], [1, 0]] [[3, 4], [1, 2]] [[0, 1], [1, 0]] 2 1 1
   = loss_function
     [[replicate 10 1, replicate 10 2], [replicate 10 3, replicate 10 4]]
     [[0, 1], [1, 0]] [[1, 2], [3, 4]] [[1, 0], [0, 1]] 2 1 1"
proof -
  have ps: "mset [1, 0] = mset [0..<2]"
    by (simp add: upt_rec numeral_2_eq_2)
  have p: "is_tensor3 2 2 10
      [[replicate 10 1, replicate 10 2], [replicate 10 3, replicate 10 (4::real)]]"
    by (simp add: is_tensor3_def is_mat_def)
  have l: "is_mat 2 2 [[0, 1], [1, 0::real]]"
    and m: "is_mat 2 2 [[1, 2], [3, 4::real]]"
    and v: "is_mat 2 2 [[1, 0], [0, 1::real]]"
    by (simp_all add: is_mat_def)
  show ?thesis
    using loss_function_permutation_invariant[OF ps p l m v, of 2 1 1]
    by (simp add: permute_rows_cols_def permute_rows_def)
qed

section \<open>Properties of the decoders\<close>

subsection \<open>Classifier head\<close>

lemma ebind_Inr: "ebind m f = Inr y \<Longrightarrow> \<exists>v. m = Inr v \<and> f v = Inr y"
  by (cases m) (simp_all add: ebind_def)

lemma F_dropout_eval:
  assumes "0 \<le> p" and "p \<le> 1"
  shows "F_dropout p False keep z = Inr z"
proof -
  have row: "map (\<lambda>pb. dropout_elem p False (k (fst pb)) (snd pb)) (zip [0..<length r] r) = r"
    for k and r :: "real list"
    by (simp add: dropout_elem_def map_snd_zip)
  have "map (\<lambda>pa. map (\<lambda>pb. dropout_elem p False (keep (fst pa) (fst pb)) (snd pb))
                   (zip [0..<length (snd pa)] (snd pa))) (zip [0..<length z] z)
        = map (\<lambda>pa. snd pa) (zip [0..<length z] z)"
    by (simp only: row)
  also have "\<dots> = z" by (simp add: map_snd_zip)
  finally show ?thesis
    using assms by (simp add: F_dropout_def enumerate_eq_zip case_prod_unfold)
qed

text \<open>
  Claim C3. The claim: outside training mode every forward pass equals the dropout-free
  composition of the layers. On the code, \<^verbatim>\<open>LinearClassifier.forward\<close> drops elements
  in evaluation mode too: with all weights one, all biases zero, dropout rate \<open>1/2\<close>, the
  module in evaluation mode and a draw that drops the element, the input \<open>1\<close> gives \<open>0\<close>,
  where the composition of the layers gives \<open>1\<close>.
\<close>

theorem LinearClassifier_dropout_in_eval_mode:
  "LinearClassifier_forward
     ((LinearClassifier_init
        \<lparr> clf_weight1 = (\<lambda>n. [replicate n 1]), clf_bias1 = [0], clf_weight2 = [[1]],
          clf_bias2 = [0], clf_weight3 = [[1]], clf_bias3 = [0] \<rparr>
        \<lparr> args_model = ''InnerProductDecoder'', args_hidden_dim = 1, args_dropout = 1 / 2,
          args_num_classes = 1 \<rparr>)\<lparr> lc_training := False \<rparr>)
     (\<lambda>n i j k. False) [[[1]]] = Inr [[[0]]]
   \<and> LinearClassifier_without_dropout
     ((LinearClassifier_init
        \<lparr> clf_weight1 = (\<lambda>n. [replicate n 1]), clf_bias1 = [0], clf_weight2 = [[1]],
          clf_bias2 = [0], clf_weight3 = [[1]], clf_bias3 = [0] \<rparr>
        \<lparr> args_model = ''InnerProductDecoder'', args_hidden_dim = 1, args_dropout = 1 / 2,
          args_num_classes = 1 \<rparr>)\<lparr> lc_training := False \<rparr>)
     [[[1]]] = Inr [[[1]]]"
  by (simp add: LinearClassifier_forward_def LinearClassifier_without_dropout_def
      LinearClassifier_init_def linear_tensor3_def linear_mat_def linear_vec_def dot_def
      F_dropout3_def dropout_elem_def relu3_def relu_def ebind_def enumerate_eq_zip)

subsection \<open>The inner-product decoder\<close>

lemma fsigmoid_range: "fsigmoid x = NaN \<or> in_unit_interval (fsigmoid x)"
proof (cases x)
  case (Fin r)
  have "0 < exp (- r)" by simp
  then have "0 \<le> sigmoid r \<and> sigmoid r \<le> 1"
    by (simp add: sigmoid_def add_pos_pos divide_le_eq_1)
  with Fin show ?thesis by simp
qed simp_all

lemma linear_vec_f_ok:
  assumes "layer_ok l c k" and "length x = c"
  shows "\<exists>v. linear_vec_f l x = Inr v \<and> length v = k"
  using assms by (auto simp: linear_vec_f_def layer_ok_def is_mat_def)

lemma collect_all_Inr_prop:
  assumes "\<And>r. r \<in> set rs \<Longrightarrow> \<exists>v. r = Inr v \<and> P v"
  shows "\<exists>vs. collect rs = Inr vs \<and> length vs = length rs \<and> list_all P vs"
  using assms
proof (induction rs)
  case Nil
  then show ?case by simp
next
  case (Cons r rs)
  then obtain v where v: "r = Inr v" "P v" by (metis list.set_intros(1))
  from Cons obtain vs where "collect rs = Inr vs" "length vs = length rs" "list_all P vs"
    by (metis list.set_intros(2))
  with v show ?case by simp
qed

lemma linear_mat_f_ok:
  assumes l: "layer_ok l c k" and m: "is_mat b c m"
  shows "\<exists>h. linear_mat_f l m = Inr h \<and> is_mat b k h"
proof -
  have "\<exists>v. r = Inr v \<and> length v = k" if "r \<in> set (map (linear_vec_f l) m)" for r
  proof -
    from that obtain x where "x \<in> set m" "r = linear_vec_f l x" by auto
    then show ?thesis using linear_vec_f_ok[OF l] m by (simp add: is_mat_row)
  qed
  from collect_all_Inr_prop[of "map (linear_vec_f l) m" "\<lambda>v. length v = k", OF this]
  show ?thesis using m by (auto simp: linear_mat_f_def is_mat_def)
qed

lemma linear_tensor3_f_ok:
  assumes l: "layer_ok l c k" and z: "is_tensor3 a b c z"
  shows "\<exists>h. linear_tensor3_f l z = Inr h \<and> is_tensor3 a b k h"
proof -
  have "\<exists>v. r = Inr v \<and> is_mat b k v" if "r \<in> set (map (linear_mat_f l) z)" for r
  proof -
    from that obtain m where "m \<in> set z" "r = linear_mat_f l m" by auto
    then show ?thesis using linear_mat_f_ok[OF l] z by (simp add: is_tensor3_def list_all_iff)
  qed
  from collect_all_Inr_prop[of "map (linear_mat_f l) z" "is_mat b k", OF this]
  show ?thesis using z by (auto simp: linear_tensor3_f_def is_tensor3_def)
qed

lemma relu3_f_shape: "is_tensor3 a b c z \<Longrightarrow> is_tensor3 a b c (relu3_f z)"
  by (simp add: relu3_f_def is_tensor3_def is_mat_def list_all_iff)

lemma F_dropout3_f_ok:
  assumes "0 \<le> p" "p \<le> 1" "is_tensor3 a b c z"
  shows "\<exists>z'. F_dropout3_f p training keep z = Inr z' \<and> is_tensor3 a b c z'"
proof -
  have "is_tensor3 a b c
     (map (\<lambda>(i, m). map (\<lambda>(j, row). map (\<lambda>(k, x). dropout_elem_f p training (keep i j k) x)
                                                     (enumerate 0 row))
                                    (enumerate 0 m)) (enumerate 0 z))"
    using assms(3)
    by (auto simp: is_tensor3_def is_mat_def list_all_iff enumerate_eq_zip
        dest!: set_zip_rightD)
  then show ?thesis using assms(1,2) by (simp add: F_dropout3_f_def)
qed

lemma LinearClassifier_forward_f_ok:
  assumes ok: "clf_init_ok init (args_hidden_dim args) (args_num_classes args)"
    and p: "0 \<le> args_dropout args" "args_dropout args \<le> 1"
    and z: "is_tensor3 a b (args_num_classes args) z"
  shows "\<exists>out. LinearClassifier_forward_f
            ((LinearClassifier_init_f init args)\<lparr> lcf_training := mode \<rparr>) keep z = Inr out
          \<and> is_tensor3 a b (args_num_classes args) out"
proof -
  let ?l1 = "LazyLinear_f (clf_weight1_f init) (clf_bias1_f init)"
  let ?l2 = "Linear_f (clf_weight2_f init) (clf_bias2_f init)"
  let ?l3 = "Linear_f (clf_weight3_f init) (clf_bias3_f init)"
  let ?h = "args_hidden_dim args"
  let ?p = "args_dropout args"
  have l1: "layer_ok ?l1 (args_num_classes args) ?h" and l2: "layer_ok ?l2 ?h ?h"
    and l3: "layer_ok ?l3 ?h (args_num_classes args)"
    using ok by (simp_all add: clf_init_ok_def)
  obtain h1 where h1: "linear_tensor3_f ?l1 z = Inr h1" "is_tensor3 a b ?h h1"
    using linear_tensor3_f_ok[OF l1 z] by blast
  obtain d1 where d1: "F_dropout3_f ?p True (keep 0) (relu3_f h1) = Inr d1" "is_tensor3 a b ?h d1"
    using F_dropout3_f_ok[OF p relu3_f_shape[OF h1(2)]] by blast
  obtain h2 where h2: "linear_tensor3_f ?l2 d1 = Inr h2" "is_tensor3 a b ?h h2"
    using linear_tensor3_f_ok[OF l2 d1(2)] by blast
  obtain d2 where d2: "F_dropout3_f ?p True (keep (Suc 0)) (relu3_f h2) = Inr d2"
      "is_tensor3 a b ?h d2"
    using F_dropout3_f_ok[OF p relu3_f_shape[OF h2(2)]] by blast
  obtain h3 where h3: "linear_tensor3_f ?l3 d2 = Inr h3" "is_tensor3 a b (args_num_classes args) h3"
    using linear_tensor3_f_ok[OF l3 d2(2)] by blast
  show ?thesis
    using h3(2)
    by (simp add: LinearClassifier_forward_f_def LinearClassifier_init_f_def ebind_def
        h1(1) d1(1) h2(1) d2(1) h3(1))
qed

lemma adj_3D_shape:
  "is_tensor3 (length z) (length z) k
     (repeat_last k (unsqueeze2 (map (map fsigmoid) (mm_transpose_f z))))"
  by (simp add: is_tensor3_def is_mat_def list_all_iff repeat_last_def unsqueeze2_def
      mm_transpose_f_def)

lemma F_dropout_f_ok:
  assumes "0 \<le> p" "p \<le> 1"
  shows "\<exists>z'. F_dropout_f p training keep z = Inr z' \<and> length z' = length z"
  using assms by (simp add: F_dropout_f_def)

lemma InnerProductDecoder_forward_ok:
  assumes ok: "clf_init_ok init (args_hidden_dim args) (args_num_classes args)"
    and p: "0 \<le> args_dropout args" "args_dropout args \<le> 1"
  shows "\<exists>out. InnerProductDecoder_forward
            (InnerProductDecoder_train mode (InnerProductDecoder_init init args)) keep0 keep z
            = Inr out \<and> is_tensor3 (length z) (length z) (args_num_classes args) out"
proof -
  obtain z' where z': "F_dropout_f (args_dropout args) mode keep0 z = Inr z'" "length z' = length z"
    using F_dropout_f_ok[OF p] by blast
  let ?adj = "repeat_last (args_num_classes args)
                (unsqueeze2 (map (map fsigmoid) (mm_transpose_f z')))"
  have "is_tensor3 (length z) (length z) (args_num_classes args) ?adj"
    using adj_3D_shape[of z' "args_num_classes args"] z'(2) by simp
  from LinearClassifier_forward_f_ok[OF ok p this, of mode keep]
  obtain a_hat where a: "LinearClassifier_forward_f
      ((LinearClassifier_init_f init args)\<lparr> lcf_training := mode \<rparr>) keep ?adj = Inr a_hat"
      "is_tensor3 (length z) (length z) (args_num_classes args) a_hat"
    by blast
  have "is_tensor3 (length z) (length z) (args_num_classes args) (map (map (map fsigmoid)) a_hat)"
    using a(2) by (simp add: is_tensor3_def is_mat_def list_all_iff)
  then show ?thesis
    by (simp add: InnerProductDecoder_forward_def InnerProductDecoder_train_def
        InnerProductDecoder_init_def Let_def ebind_def z'(1) a(1))
qed

text \<open>
  Claim C7, as the code has it. Whatever the decoder's parameters, its mode, the dropout
  draws and the input embedding matrix, every entry of a tensor returned by
  \<^verbatim>\<open>InnerProductDecoder.forward\<close> is NaN or lies in the closed interval \<open>[0, 1]\<close>. And
  the forward pass of a decoder built by the constructor does return, in either mode, when
  the dropout rate is a probability and the parameters have the sizes the constructor
  gives them.
\<close>

theorem InnerProductDecoder_output_NaN_or_in_unit_interval:
  "(InnerProductDecoder_forward self keep0 keep z = Inr out \<longrightarrow>
      list_all (list_all (list_all (\<lambda>x. x = NaN \<or> in_unit_interval x))) out)
   \<and> (clf_init_ok init (args_hidden_dim args) (args_num_classes args)
       \<and> 0 \<le> args_dropout args \<and> args_dropout args \<le> 1 \<longrightarrow>
      (\<exists>res. InnerProductDecoder_forward
                (InnerProductDecoder_train mode (InnerProductDecoder_init init args)) keep0 keep z
              = Inr res))"
proof -
  have range: "list_all (list_all (list_all (\<lambda>x. x = NaN \<or> in_unit_interval x))) out"
    if "InnerProductDecoder_forward self keep0 keep z = Inr out"
  proof -
    from that obtain a_hat where "out = map (map (map fsigmoid)) a_hat"
      unfolding InnerProductDecoder_forward_def Let_def
      by (auto dest!: ebind_Inr)
    then show ?thesis
      using fsigmoid_range by (simp add: list_all_iff)
  qed
  show ?thesis
    using range InnerProductDecoder_forward_ok[of init args mode keep0 keep z] by blast
qed

lemmas run_simps = InnerProductDecoder_forward_def InnerProductDecoder_train_def
        InnerProductDecoder_init_def F_dropout_f_def mm_transpose_f_def repeat_last_def
        unsqueeze2_def LinearClassifier_forward_f_def
        LinearClassifier_init_f_def linear_tensor3_f_def linear_mat_f_def linear_vec_f_def
        fdot_def fsum_def
        F_dropout3_f_def dropout_elem_f_def relu3_f_def ebind_def enumerate_eq_zip
        overflow_def float32_limit_def

text \<open>
  A run of the decoder in evaluation mode on one node with embedding \<open>0\<close>: it returns the
  single probability \<open>sigmoid (1/2)\<close>.
\<close>

theorem InnerProductDecoder_output_NaN_or_in_unit_interval_witness:
  "InnerProductDecoder_forward
     (InnerProductDecoder_train False (InnerProductDecoder_init
        \<lparr> clf_weight1_f = (\<lambda>n. [replicate n (Fin 1)]), clf_bias1_f = [Fin 0],
          clf_weight2_f = [[Fin 1]], clf_bias2_f = [Fin 0],
          clf_weight3_f = [[Fin 1]], clf_bias3_f = [Fin 0] \<rparr>
        \<lparr> args_model = ''InnerProductDecoder'', args_hidden_dim = 1, args_dropout = 0,
          args_num_classes = 1 \<rparr>))
     (\<lambda>i j. True) (\<lambda>n i j k. True) [[Fin 0]] = Inr [[[Fin (sigmoid (1 / 2))]]]
   \<and> in_unit_interval (Fin (sigmoid (1 / 2)))"
proof -
  have run: "InnerProductDecoder_forward
     (InnerProductDecoder_train False (InnerProductDecoder_init
        \<lparr> clf_weight1_f = (\<lambda>n. [replicate n (Fin 1)]), clf_bias1_f = [Fin 0],
          clf_weight2_f = [[Fin 1]], clf_bias2_f = [Fin 0],
          clf_weight3_f = [[Fin 1]], clf_bias3_f = [Fin 0] \<rparr>
        \<lparr> args_model = ''InnerProductDecoder'', args_hidden_dim = 1, args_dropout = 0,
          args_num_classes = 1 \<rparr>))
     (\<lambda>i j. True) (\<lambda>n i j k. True) [[Fin 0]] = Inr [[[Fin (sigmoid (1 / 2))]]]"
    by (simp add: run_simps sigmoid_def[of 0])
  show ?thesis
    using InnerProductDecoder_output_NaN_or_in_unit_interval[THEN conjunct1, rule_format, OF run]
      run
    by simp
qed

text \<open>
  Claim C7, as the specification states it, fails on the code. For the two finite
  embeddings \<open>(10\<^sup>2\<^sup>0, 10\<^sup>2\<^sup>0)\<close> and \<open>(10\<^sup>2\<^sup>0, -10\<^sup>2\<^sup>0)\<close> the products \<open>10\<^sup>4\<^sup>0\<close> overflow,
  the inner product of the two rows is \<open>\<infinity> - \<infinity>\<close>, and the decoder (all weights one, biases
  zero, no dropout, evaluation mode) returns NaN for the two pairs of distinct nodes: an
  entry that is not in \<open>[0, 1]\<close>.
\<close>

theorem InnerProductDecoder_returns_NaN_on_finite_input:
  "InnerProductDecoder_forward
     (InnerProductDecoder_train False (InnerProductDecoder_init
        \<lparr> clf_weight1_f = (\<lambda>n. [replicate n (Fin 1)]), clf_bias1_f = [Fin 0],
          clf_weight2_f = [[Fin 1]], clf_bias2_f = [Fin 0],
          clf_weight3_f = [[Fin 1]], clf_bias3_f = [Fin 0] \<rparr>
        \<lparr> args_model = ''InnerProductDecoder'', args_hidden_dim = 1, args_dropout = 0,
          args_num_classes = 1 \<rparr>))
     (\<lambda>i j. True) (\<lambda>n i j k. True)
     [[Fin (10 ^ 20), Fin (10 ^ 20)], [Fin (10 ^ 20), Fin (- (10 ^ 20))]]
   = Inr [[[Fin (sigmoid 1)], [NaN]], [[NaN], [Fin (sigmoid 1)]]]
   \<and> \<not> in_unit_interval NaN"
  by (simp add: run_simps)

subsection \<open>Indexing and elementwise products\<close>

lemma collect_Inr_length: "collect rs = Inr vs \<Longrightarrow> length vs = length rs"
  by (induction rs arbitrary: vs) (auto split: sum.splits)

lemma collect_Inr_mem:
  "collect rs = Inr vs \<Longrightarrow> v \<in> set vs \<Longrightarrow> Inr v \<in> set rs"
  by (induction rs arbitrary: vs) (auto split: sum.splits)

lemma collect_Inl_mem: "collect rs = Inl e \<Longrightarrow> Inl e \<in> set rs"
  by (induction rs) (auto split: sum.splits)

lemma collect_all_Inr: "(\<And>r. r \<in> set rs \<Longrightarrow> \<exists>v. r = Inr v) \<Longrightarrow> \<exists>vs. collect rs = Inr vs"
proof (induction rs)
  case Nil
  then show ?case by simp
next
  case (Cons r rs)
  then obtain v vs where "r = Inr v" "collect rs = Inr vs" by (metis list.set_intros)
  then show ?case by simp
qed

lemma index_row_Inr: "index_row t i = Inr v \<Longrightarrow> v \<in> set t"
  by (auto simp: index_row_def split: if_splits intro!: nth_mem)

lemma index_row_Inl: "index_row t i = Inl e \<Longrightarrow> e = IndexError"
  by (auto simp: index_row_def split: if_splits)

lemma index_row_in_range:
  "- int (length t) \<le> i \<Longrightarrow> i < int (length t) \<Longrightarrow> \<exists>v. index_row t i = Inr v"
  by (auto simp: index_row_def)

lemma index_select_Inl: "index_select t idx = Inl e \<Longrightarrow> e = IndexError"
  by (auto simp: index_select_def dest!: collect_Inl_mem index_row_Inl[OF sym])

lemma index_select_Inr:
  assumes "index_select t idx = Inr vs"
  shows "length vs = length idx" and "set vs \<subseteq> set t"
proof -
  show "length vs = length idx"
    using collect_Inr_length[OF assms[unfolded index_select_def]] by simp
  show "set vs \<subseteq> set t"
  proof
    fix v assume "v \<in> set vs"
    then have "Inr v \<in> set (map (index_row t) idx)"
      using collect_Inr_mem[OF assms[unfolded index_select_def]] by blast
    then show "v \<in> set t" by (auto dest: index_row_Inr[OF sym])
  qed
qed

lemma index_select_in_range:
  assumes "\<And>i. i \<in> set idx \<Longrightarrow> - int (length t) \<le> i \<and> i < int (length t)"
  shows "\<exists>vs. index_select t idx = Inr vs"
  unfolding index_select_def
  by (rule collect_all_Inr) (use assms index_row_in_range in fastforce)

lemma index_select_is_mat:
  assumes "index_select z idx = Inr vs" and "is_mat n d z"
  shows "is_mat (length idx) d vs"
  using index_select_Inr[OF assms(1)] assms(2)
  by (auto simp: is_mat_def list_all_iff)

lemma mul_mat_same_shape:
  assumes "is_mat n d a" "is_mat n d b"
  shows "mul_mat a b = Inr (map2 (map2 (*)) a b)"
  unfolding mul_mat_def mul_vec_def
proof (rule broadcast2_same_length)
  show "length a = length b" using assms by (simp add: is_mat_def)
next
  fix x y assume "(x, y) \<in> set (zip a b)"
  then have "x \<in> set a" "y \<in> set b" by (auto dest: set_zip_leftD set_zip_rightD)
  then have "length x = length y" using assms by (simp add: is_mat_row)
  then show "broadcast2 (\<lambda>x y. Inr (x * y)) x y = Inr (map2 (*) x y)"
    by (rule broadcast2_same_length) simp
qed

lemma mat_eqI:
  assumes "is_mat n d a" "is_mat n d b" "\<And>i j. i < n \<Longrightarrow> j < d \<Longrightarrow> a ! i ! j = b ! i ! j"
  shows "a = b"
proof (rule nth_equalityI)
  show "length a = length b" using assms by (simp add: is_mat_def)
next
  fix i assume i: "i < length a"
  then have "i < n" using assms(1) by (simp add: is_mat_def)
  then have la: "length (a ! i) = d" and lb: "length (b ! i) = d"
    using assms(1,2) by (simp_all add: is_mat_def list_all_length)
  show "a ! i = b ! i"
    by (rule nth_equalityI) (use la lb assms(3) \<open>i < n\<close> in auto)
qed

subsection \<open>DistMult\<close>

lemma overflow_exact: "\<bar>r\<bar> \<le> 2 ^ 24 \<Longrightarrow> overflow r = Fin r"
  by (simp add: overflow_def float32_limit_def abs_le_iff)

lemma abs_mult_le:
  fixes a b :: real
  assumes "\<bar>a\<bar> \<le> A" and "\<bar>b\<bar> \<le> B"
  shows "\<bar>a * b\<bar> \<le> A * B"
proof -
  have "\<bar>a\<bar> * \<bar>b\<bar> \<le> A * B"
    by (rule mult_mono) (use assms in auto)
  then show ?thesis by (simp add: abs_mult)
qed

lemma fmul_small_commute:
  assumes "small_int_float x" "small_int_float r" "small_int_float y"
  shows "fmul (fmul x r) y = fmul (fmul y r) x"
proof -
  from assms obtain i j k :: int where
    x: "x = Fin (real_of_int i)" "\<bar>i\<bar> \<le> 256" and
    r: "r = Fin (real_of_int j)" "\<bar>j\<bar> \<le> 256" and
    y: "y = Fin (real_of_int k)" "\<bar>k\<bar> \<le> 256"
    unfolding small_int_float_def by blast
  let ?a = "real_of_int i" and ?b = "real_of_int j" and ?c = "real_of_int k"
  have a: "\<bar>?a\<bar> \<le> 256" and b: "\<bar>?b\<bar> \<le> 256" and c: "\<bar>?c\<bar> \<le> 256"
    using x(2) r(2) y(2) by linarith+
  have ab: "\<bar>?a * ?b\<bar> \<le> 256 * 256" and cb: "\<bar>?c * ?b\<bar> \<le> 256 * 256"
    using abs_mult_le[OF a b] abs_mult_le[OF c b] by simp_all
  have abc: "\<bar>?a * ?b * ?c\<bar> \<le> 256 * 256 * 256" and cba: "\<bar>?c * ?b * ?a\<bar> \<le> 256 * 256 * 256"
    using abs_mult_le[OF ab c] abs_mult_le[OF cb a] by simp_all
  have 1: "overflow (?a * ?b) = Fin (?a * ?b)" and 2: "overflow (?c * ?b) = Fin (?c * ?b)"
    using ab cb by (auto intro!: overflow_exact)
  have 3: "overflow (?a * ?b * ?c) = Fin (?a * ?b * ?c)"
    and 4: "overflow (?c * ?b * ?a) = Fin (?c * ?b * ?a)"
    using abc cba by (auto intro!: overflow_exact)
  have "fmul (fmul x r) y = Fin (?a * ?b * ?c)"
    by (simp only: x(1) r(1) y(1) fmul.simps 1 3)
  moreover have "fmul (fmul y r) x = Fin (?c * ?b * ?a)"
    by (simp only: x(1) r(1) y(1) fmul.simps 2 4)
  moreover have "?a * ?b * ?c = ?c * ?b * ?a" by simp
  ultimately show ?thesis by simp
qed

lemma mul_mat_f_same_shape:
  assumes "is_mat n d a" "is_mat n d b"
  shows "mul_mat_f a b = Inr (map2 (map2 fmul) a b)"
  unfolding mul_mat_f_def
proof (rule broadcast2_same_length)
  show "length a = length b" using assms by (simp add: is_mat_def)
next
  fix x y assume "(x, y) \<in> set (zip a b)"
  then have "x \<in> set a" "y \<in> set b" by (auto dest: set_zip_leftD set_zip_rightD)
  then have "length x = length y" using assms by (simp add: is_mat_row)
  then show "broadcast2 (\<lambda>x y. Inr (fmul x y)) x y = Inr (map2 fmul x y)"
    by (rule broadcast2_same_length) simp
qed

lemma all_small_entry:
  "all_small m \<Longrightarrow> is_mat n d m \<Longrightarrow> i < n \<Longrightarrow> j < d \<Longrightarrow> small_int_float (m ! i ! j)"
  by (simp add: all_small_def is_mat_def list_all_length)

lemma all_small_float_mat:
  "list_all (list_all (\<lambda>i. \<bar>i\<bar> \<le> 256)) m \<Longrightarrow> all_small (float_mat m)"
  by (auto simp: all_small_def float_mat_def list_all_iff small_int_float_def)

lemma all_small_subset: "all_small m \<Longrightarrow> set m' \<subseteq> set m \<Longrightarrow> all_small m'"
  by (auto simp: all_small_def list_all_iff)

lemma is_mat_float_mat: "is_mat n d m \<Longrightarrow> is_mat n d (float_mat m)"
  by (simp add: is_mat_def float_mat_def list_all_iff)

lemma triple_product_commute:
  assumes "is_mat n d a" "is_mat n d r" "is_mat n d b"
    and "all_small a" "all_small r" "all_small b"
  shows "map2 (map2 fmul) (map2 (map2 fmul) a r) b = map2 (map2 fmul) (map2 (map2 fmul) b r) a"
proof (rule mat_eqI[where n = n and d = d])
  show "is_mat n d (map2 (map2 fmul) (map2 (map2 fmul) a r) b)"
    using assms(1-3) by (intro is_mat_map2)
  show "is_mat n d (map2 (map2 fmul) (map2 (map2 fmul) b r) a)"
    using assms(1-3) by (intro is_mat_map2)
next
  fix i j assume ij: "i < n" "j < d"
  have ar: "is_mat n d (map2 (map2 fmul) a r)" and br: "is_mat n d (map2 (map2 fmul) b r)"
    using assms(1-3) by (auto intro: is_mat_map2)
  have "fmul (fmul (a ! i ! j) (r ! i ! j)) (b ! i ! j) = fmul (fmul (b ! i ! j) (r ! i ! j)) (a ! i ! j)"
    by (intro fmul_small_commute all_small_entry[OF _ _ ij] assms)
  then show "map2 (map2 fmul) (map2 (map2 fmul) a r) b ! i ! j
          = map2 (map2 fmul) (map2 (map2 fmul) b r) a ! i ! j"
    by (simp only: map2_entry[OF ar assms(3) ij] map2_entry[OF assms(1,2) ij]
        map2_entry[OF br assms(1) ij] map2_entry[OF assms(3,2) ij])
qed

lemma DistMult_symmetric_small:
  assumes z: "is_mat n d z" and r: "is_mat nr d (rel_emb self)"
    and len: "length edge_type = length edge_index"
    and zs: "all_small z" and rs: "all_small (rel_emb self)"
  shows "DistMultDecoder_forward self z (map prod.swap edge_index) edge_type
           = DistMultDecoder_forward self z edge_index edge_type"
proof -
  let ?S = "index_select z (map fst edge_index)"
  let ?D = "index_select z (map snd edge_index)"
  let ?R = "index_select (rel_emb self) edge_type"
  have swap: "fst \<circ> prod.swap = (snd :: int \<times> int \<Rightarrow> int)"
    "snd \<circ> prod.swap = (fst :: int \<times> int \<Rightarrow> int)"
    by auto
  show ?thesis
  proof (cases ?S)
    case (Inl e)
    then have e: "?S = Inl IndexError" using index_select_Inl by blast
    show ?thesis
    proof (cases ?D)
      case (Inl e')
      then have "?D = Inl IndexError" using index_select_Inl by blast
      with e show ?thesis
        by (simp add: DistMultDecoder_forward_def swap ebind_def)
    next
      case (Inr zd)
      with e show ?thesis
        by (simp add: DistMultDecoder_forward_def swap ebind_def)
    qed
  next
    case S: (Inr src)
    show ?thesis
    proof (cases ?D)
      case (Inl e')
      then have "?D = Inl IndexError" using index_select_Inl by blast
      with S show ?thesis
        by (simp add: DistMultDecoder_forward_def swap ebind_def)
    next
      case D: (Inr dst)
      show ?thesis
      proof (cases ?R)
        case (Inl e'')
        with S D show ?thesis
          by (simp add: DistMultDecoder_forward_def swap ebind_def)
      next
        case R: (Inr rel)
        have a: "is_mat (length edge_index) d src"
          using index_select_is_mat[OF S z] by simp
        have b: "is_mat (length edge_index) d dst"
          using index_select_is_mat[OF D z] by simp
        have c: "is_mat (length edge_index) d rel"
          using index_select_is_mat[OF R r] len by simp
        have sa: "all_small src" and sb: "all_small dst" and sc: "all_small rel"
          using all_small_subset[OF zs index_select_Inr(2)[OF S]]
            all_small_subset[OF zs index_select_Inr(2)[OF D]]
            all_small_subset[OF rs index_select_Inr(2)[OF R]] by simp_all
        have ac: "is_mat (length edge_index) d (map2 (map2 fmul) src rel)"
          and bc: "is_mat (length edge_index) d (map2 (map2 fmul) dst rel)"
          using a b c by (auto intro: is_mat_map2)
        show ?thesis
          by (simp add: DistMultDecoder_forward_def swap S D R ebind_def
              mul_mat_f_same_shape[OF a c] mul_mat_f_same_shape[OF b c]
              mul_mat_f_same_shape[OF ac b] mul_mat_f_same_shape[OF bc a]
              triple_product_commute[OF a c b sa sc sb])
      qed
    qed
  qed
qed

lemmas dm_simps = DistMultDecoder_forward_def index_select_def index_row_def mul_mat_f_def
      broadcast2_def ebind_def fsum_def overflow_def float32_limit_def

lemma ov1: "DistMultDecoder_forward \<lparr> rel_emb = [[Fin (10 ^ 30)]] \<rparr>
       [[Fin (10 ^ 30)], [Fin (1 / 10 ^ 30)]] [(0, 1)] [0] = Inr [PInf]"
  by (simp add: dm_simps)

lemma ov2: "DistMultDecoder_forward \<lparr> rel_emb = [[Fin (10 ^ 30)]] \<rparr>
       [[Fin (10 ^ 30)], [Fin (1 / 10 ^ 30)]] [(1, 0)] [0] = Inr [Fin (10 ^ 30)]"
  by (simp add: dm_simps)

text \<open>
  Claim C4, as the code has it. The symmetry of the DistMult score does not depend on the
  relation embedding. For a non-empty latent matrix and relation table of the same width
  whose entries are integers of magnitude at most 256 (so that every product of three of
  them is computed exactly in float32), and one relation per edge, scoring the reversed
  edges \<open>(b, a)\<close> under the same relations gives the same result as scoring the edges
  \<open>(a, b)\<close>: the same scores, or the same exception. Outside exact products the two
  directions, computed as \<open>(z\<^sub>a * rel) * z\<^sub>b\<close> and \<open>(z\<^sub>b * rel) * z\<^sub>a\<close>, can differ: with the
  embeddings \<open>10\<^sup>3\<^sup>0\<close> and \<open>10\<^sup>-\<^sup>3\<^sup>0\<close> and the relation embedding \<open>10\<^sup>3\<^sup>0\<close> one direction
  overflows to infinity and the other gives \<open>10\<^sup>3\<^sup>0\<close>.
\<close>

theorem DistMult_score_symmetric_when_exact:
  "(0 < n \<and> 0 < nr \<and> is_mat n d zi \<and> is_mat nr d ri
      \<and> length edge_type = length edge_index
      \<and> list_all (list_all (\<lambda>i. \<bar>i\<bar> \<le> 256)) zi \<and> list_all (list_all (\<lambda>i. \<bar>i\<bar> \<le> 256)) ri \<longrightarrow>
      DistMultDecoder_forward \<lparr> rel_emb = float_mat ri \<rparr> (float_mat zi)
          (map prod.swap edge_index) edge_type
        = DistMultDecoder_forward \<lparr> rel_emb = float_mat ri \<rparr> (float_mat zi)
          edge_index edge_type)
   \<and> DistMultDecoder_forward \<lparr> rel_emb = [[Fin (10 ^ 30)]] \<rparr>
       [[Fin (10 ^ 30)], [Fin (1 / 10 ^ 30)]] [(0, 1)] [0] = Inr [PInf]
   \<and> DistMultDecoder_forward \<lparr> rel_emb = [[Fin (10 ^ 30)]] \<rparr>
       [[Fin (10 ^ 30)], [Fin (1 / 10 ^ 30)]] [(1, 0)] [0] = Inr [Fin (10 ^ 30)]"
proof -
  have "DistMultDecoder_forward \<lparr> rel_emb = float_mat ri \<rparr> (float_mat zi)
          (map prod.swap edge_index) edge_type
        = DistMultDecoder_forward \<lparr> rel_emb = float_mat ri \<rparr> (float_mat zi)
          edge_index edge_type"
    if "is_mat n d zi" "is_mat nr d ri" "length edge_type = length edge_index"
      "list_all (list_all (\<lambda>i. \<bar>i\<bar> \<le> 256)) zi" "list_all (list_all (\<lambda>i. \<bar>i\<bar> \<le> 256)) ri"
    by (rule DistMult_symmetric_small[where n = n and d = d and nr = nr])
       (use that in \<open>simp_all add: is_mat_float_mat all_small_float_mat\<close>)
  then show ?thesis using ov1 ov2 by blast
qed

text \<open>
  Three nodes, two relations, two edges and their reversals.
\<close>

theorem DistMult_score_symmetric_when_exact_witness:
  "DistMultDecoder_forward \<lparr> rel_emb = float_mat [[1, 0], [0, 1]] \<rparr>
      (float_mat [[1, 2], [3, 4], [5, 6]]) [(2, 0), (1, 2)] [0, 1]
   = DistMultDecoder_forward \<lparr> rel_emb = float_mat [[1, 0], [0, 1]] \<rparr>
      (float_mat [[1, 2], [3, 4], [5, 6]]) [(0, 2), (2, 1)] [0, 1]"
  using DistMult_score_symmetric_when_exact
    [where n = 3 and nr = 2 and d = 2 and zi = "[[1, 2], [3, 4], [5, 6]]"
       and ri = "[[1, 0], [0, 1]]" and edge_type = "[0, 1]"
       and edge_index = "[(0, 2), (2, 1)]", THEN conjunct1]
  by (simp add: is_mat_def)

text \<open>
  Claim C4, as the specification states it, fails on the code: the scores of \<open>(a, b)\<close> and
  \<open>(b, a)\<close> are equal without any symmetry of the relation embedding. With the distinct
  embeddings \<open>(1, 2)\<close> and \<open>(3, 4)\<close> and the relation embedding \<open>(5, 7)\<close> both directions
  score \<open>71\<close>.
\<close>

theorem DistMult_scores_equal_for_asymmetric_input:
  "DistMultDecoder_forward \<lparr> rel_emb = [[Fin 5, Fin 7]] \<rparr>
      [[Fin 1, Fin 2], [Fin 3, Fin 4]] [(0, 1)] [0] = Inr [Fin 71]
   \<and> DistMultDecoder_forward \<lparr> rel_emb = [[Fin 5, Fin 7]] \<rparr>
      [[Fin 1, Fin 2], [Fin 3, Fin 4]] [(1, 0)] [0] = Inr [Fin 71]"
  by (simp add: dm_simps)

subsection \<open>Heterogeneous DistMult\<close>

lemma broadcast2_Inr_length:
  "length xs = length ys \<Longrightarrow> broadcast2 f xs ys = Inr vs \<Longrightarrow> length vs = length xs"
  by (auto simp: broadcast2_def dest!: collect_Inr_length)

lemma matmul_Inr:
  assumes "matmul a b = Inr m"
  shows "length m = length a" and "list_all (\<lambda>row. length row = t_cols b) m"
  using assms by (auto simp: matmul_def list_all_iff split: if_splits)

lemma het_scores_shape:
  assumes "het_scores self z edge_index = Inr m"
  shows "length m = length edge_index"
    and "list_all (\<lambda>row. length row = t_cols (het_rel_emb self)) m"
proof -
  from assms obtain z_src z_dst prod where
    s: "index_select z (map fst edge_index) = Inr z_src" and
    d: "index_select z (map snd edge_index) = Inr z_dst" and
    p: "mul_mat z_src z_dst = Inr prod" and
    m: "matmul prod (het_rel_emb self) = Inr m"
    unfolding het_scores_def by (auto dest!: ebind_Inr)
  have "length z_src = length edge_index" "length z_dst = length edge_index"
    using index_select_Inr(1)[OF s] index_select_Inr(1)[OF d] by simp_all
  then have "length prod = length edge_index"
    using broadcast2_Inr_length[OF _ p[unfolded mul_mat_def]] by simp
  then show "length m = length edge_index"
    using matmul_Inr(1)[OF m] by simp
  show "list_all (\<lambda>row. length row = t_cols (het_rel_emb self)) m"
    by (rule matmul_Inr(2)[OF m])
qed

lemma het_scores_returns:
  assumes z: "is_mat n (t_rows (het_rel_emb self)) z"
    and idx: "\<And>s d. (s, d) \<in> set edge_index \<Longrightarrow>
                - int n \<le> s \<and> s < int n \<and> - int n \<le> d \<and> d < int n"
  shows "\<exists>m. het_scores self z edge_index = Inr m"
proof -
  have n: "length z = n" using z by (simp add: is_mat_def)
  obtain z_src where s: "index_select z (map fst edge_index) = Inr z_src"
    using index_select_in_range[of "map fst edge_index" z] idx n by fastforce
  obtain z_dst where d: "index_select z (map snd edge_index) = Inr z_dst"
    using index_select_in_range[of "map snd edge_index" z] idx n by fastforce
  have a: "is_mat (length edge_index) (t_rows (het_rel_emb self)) z_src"
    using index_select_is_mat[OF s z] by simp
  have b: "is_mat (length edge_index) (t_rows (het_rel_emb self)) z_dst"
    using index_select_is_mat[OF d z] by simp
  have p: "mul_mat z_src z_dst = Inr (map2 (map2 (*)) z_src z_dst)"
    by (rule mul_mat_same_shape[OF a b])
  have "is_mat (length edge_index) (t_rows (het_rel_emb self)) (map2 (map2 (*)) z_src z_dst)"
    using a b by (rule is_mat_map2)
  then have "list_all (\<lambda>row. length row = t_rows (het_rel_emb self)) (map2 (map2 (*)) z_src z_dst)"
    by (simp add: is_mat_def)
  then have "\<exists>m. matmul (map2 (map2 (*)) z_src z_dst) (het_rel_emb self) = Inr m"
    by (simp add: matmul_def)
  then show ?thesis
    by (simp add: het_scores_def s d p ebind_def)
qed

text \<open>
  Claim C8. For a decoder built with \<^verbatim>\<open>num_relations\<close> relations, a score matrix
  returned by \<^verbatim>\<open>forward\<close> has one row per positive edge plus, when the batch has a
  negative edge index, one per negative edge, and every row has \<open>num_relations + 1\<close>
  entries. The forward pass does return when the latent matrix has
  \<^verbatim>\<open>hidden_channels\<close> columns and the edges name existing nodes.
\<close>

theorem HetDistMult_score_matrix_shape:
  "(HetDistMultDecoder_forward (HetDistMultDecoder_init vals num_relations hidden_channels) z batch
      = Inr out \<longrightarrow>
      length out = length (pos_edge_index batch)
                   + (case neg_edge_index batch of None \<Rightarrow> 0 | Some neg \<Rightarrow> length neg)
      \<and> list_all (\<lambda>row. length row = num_relations + 1) out)
   \<and> (is_mat n hidden_channels z \<and> edges_in_range n (pos_edge_index batch)
      \<and> (case neg_edge_index batch of None \<Rightarrow> True | Some neg \<Rightarrow> edges_in_range n neg) \<longrightarrow>
      (\<exists>m. HetDistMultDecoder_forward (HetDistMultDecoder_init vals num_relations hidden_channels)
              z batch = Inr m))"
proof -
  let ?self = "HetDistMultDecoder_init vals num_relations hidden_channels"
  have cols: "t_cols (het_rel_emb ?self) = num_relations + 1"
    and rows: "t_rows (het_rel_emb ?self) = hidden_channels"
    by (simp_all add: HetDistMultDecoder_init_def)
  have shape: "length out = length (pos_edge_index batch)
                   + (case neg_edge_index batch of None \<Rightarrow> 0 | Some neg \<Rightarrow> length neg)
      \<and> list_all (\<lambda>row. length row = num_relations + 1) out"
    if run: "HetDistMultDecoder_forward ?self z batch = Inr out"
  proof (cases "neg_edge_index batch")
    case None
    with run have "het_scores ?self z (pos_edge_index batch) = Inr out"
      by (auto simp: HetDistMultDecoder_forward_def dest!: ebind_Inr)
    from het_scores_shape[OF this] show ?thesis
      by (simp add: None cols)
  next
    case (Some neg)
    with run obtain pos_out neg_out where
      p: "het_scores ?self z (pos_edge_index batch) = Inr pos_out" and
      q: "het_scores ?self z neg = Inr neg_out" and
      o: "out = pos_out @ neg_out"
      by (auto simp: HetDistMultDecoder_forward_def dest!: ebind_Inr)
    from het_scores_shape[OF p] het_scores_shape[OF q] show ?thesis
      by (simp add: Some cols o)
  qed
  have total: "\<exists>m. HetDistMultDecoder_forward ?self z batch = Inr m"
    if z: "is_mat n hidden_channels z" and pos: "edges_in_range n (pos_edge_index batch)"
      and neg: "case neg_edge_index batch of None \<Rightarrow> True | Some neg \<Rightarrow> edges_in_range n neg"
  proof -
    have z': "is_mat n (t_rows (het_rel_emb ?self)) z" using z by (simp add: rows)
    obtain pos_out where p: "het_scores ?self z (pos_edge_index batch) = Inr pos_out"
      using het_scores_returns[OF z', of "pos_edge_index batch"] pos
      by (auto simp: edges_in_range_def list_all_iff)
    show ?thesis
    proof (cases "neg_edge_index batch")
      case None
      then show ?thesis by (simp add: HetDistMultDecoder_forward_def p ebind_def)
    next
      case (Some e)
      then have "edges_in_range n e" using neg by simp
      then obtain neg_out where "het_scores ?self z e = Inr neg_out"
        using het_scores_returns[OF z', of e]
        by (auto simp: edges_in_range_def list_all_iff)
      then show ?thesis by (simp add: HetDistMultDecoder_forward_def p Some ebind_def)
    qed
  qed
  show ?thesis using shape total by blast
qed

text \<open>
  One positive and two negative edges on two nodes, two relations: three rows of three
  scores.
\<close>

theorem HetDistMult_score_matrix_shape_witness:
  "HetDistMultDecoder_forward (HetDistMultDecoder_init [[1, 2, 3], [4, 5, 6]] 2 2)
      [[1, 2], [3, 4]]
      \<lparr> batch_x = None, batch_node_ids = [], pos_edge_index = [(0, 1)],
        neg_edge_index = Some [(1, 1), (0, 0)] \<rparr>
    = Inr [[35, 46, 57], [73, 98, 123], [17, 22, 27]]
   \<and> length [[35, 46, 57], [73, 98, 123], [17, 22, 27 :: real]] = 1 + 2"
proof -
  have run: "HetDistMultDecoder_forward (HetDistMultDecoder_init [[1, 2, 3], [4, 5, 6]] 2 2)
      [[1, 2], [3, 4]]
      \<lparr> batch_x = None, batch_node_ids = [], pos_edge_index = [(0, 1)],
        neg_edge_index = Some [(1, 1), (0, 0)] \<rparr>
    = Inr [[35, 46, 57], [73, 98, 123], [17, 22, 27]]"
    by (simp add: HetDistMultDecoder_forward_def HetDistMultDecoder_init_def het_scores_def
        index_select_def index_row_def mul_mat_def mul_vec_def broadcast2_def matmul_def
        ebind_def upt_rec numeral_3_eq_3 numeral_2_eq_2)
  show ?thesis
    using HetDistMult_score_matrix_shape
      [of "[[1, 2, 3], [4, 5, 6]]" 2 2 "[[1, 2], [3, 4]]"
          "\<lparr> batch_x = None, batch_node_ids = [], pos_edge_index = [(0, 1)],
             neg_edge_index = Some [(1, 1), (0, 0)] \<rparr>"
          "[[35, 46, 57], [73, 98, 123], [17, 22, 27]]" 2] run
    by simp
qed

end
